theory Spec2Isabelle
  imports Complex_Main
begin

section \<open>Data model\<close>

text \<open>
  The program computes in C++ \<open>double\<close>s. The embedding below is the program in exact
  arithmetic: a \<open>double\<close> is a \<^typ>\<open>real\<close> and every operation is the exact one. The
  theorems proved on it are statements about the code's formulas without rounding, and
  say so. The functions whose claims depend on the rounding have a second embedding,
  with the suffix \<open>_double\<close>, in which every operation rounds to binary64.

  Where the code divides, the embedding returns an error value for a zero denominator
  instead of the infinity or NaN a \<open>double\<close> division would give, because no real number
  stands for either.
\<close>

datatype error = DivisionByZero | IndexOutOfRange

text \<open>
  Modelled from the spec: the enumeration \<open>BallType\<close> is declared in a header that is not
  part of the sources. \<open>physics.cpp\<close> names \<open>undetermined\<close>, \<open>solid\<close> and \<open>striped\<close>; the
  spec's data model adds \<open>cue\<close> and \<open>eight\<close>.
\<close>

datatype BallType = undetermined | solid | striped | eight | cue

text \<open>
  \<open>class Ball\<close> (Ball.h): position, velocity, radius and mass. The last three fields are
  modelled from the spec: \<open>physics.cpp\<close> reads them through \<open>isVisible\<close>, \<open>getBallType\<close> and
  \<open>getBallNumber\<close>, whose class version is not part of the sources.
\<close>

record Ball =
  m_xPosition :: real
  m_yPosition :: real
  m_xVelocity :: real
  m_yVelocity :: real
  m_radius :: real
  m_mass :: real
  m_visible :: bool
  m_ballType :: BallType
  m_ballNumber :: int

abbreviation getX :: "Ball \<Rightarrow> real" where "getX \<equiv> m_xPosition"
abbreviation getY :: "Ball \<Rightarrow> real" where "getY \<equiv> m_yPosition"
abbreviation getVX :: "Ball \<Rightarrow> real" where "getVX \<equiv> m_xVelocity"
abbreviation getVY :: "Ball \<Rightarrow> real" where "getVY \<equiv> m_yVelocity"
abbreviation getRadius :: "Ball \<Rightarrow> real" where "getRadius \<equiv> m_radius"
abbreviation getMass :: "Ball \<Rightarrow> real" where "getMass \<equiv> m_mass"
abbreviation isVisible :: "Ball \<Rightarrow> bool" where "isVisible \<equiv> m_visible"
abbreviation getBallType :: "Ball \<Rightarrow> BallType" where "getBallType \<equiv> m_ballType"
abbreviation getBallNumber :: "Ball \<Rightarrow> int" where "getBallNumber \<equiv> m_ballNumber"

subsection \<open>Mutators of \<open>Ball\<close>\<close>

definition setPosition :: "Ball \<Rightarrow> real \<Rightarrow> real \<Rightarrow> Ball" where
  "setPosition b xPos yPos = b\<lparr>m_xPosition := xPos, m_yPosition := yPos\<rparr>"

definition addPosition :: "Ball \<Rightarrow> real \<Rightarrow> real \<Rightarrow> Ball" where
  "addPosition b xPos yPos =
     b\<lparr>m_xPosition := m_xPosition b + xPos, m_yPosition := m_yPosition b + yPos\<rparr>"

text \<open>
  \<open>subPosition\<close> and \<open>subVelocity\<close> are declared in Ball.h under the comment that they
  stand for adding negative numbers; their bodies are written here accordingly.
\<close>

definition subPosition :: "Ball \<Rightarrow> real \<Rightarrow> real \<Rightarrow> Ball" where
  "subPosition b xPos yPos =
     b\<lparr>m_xPosition := m_xPosition b - xPos, m_yPosition := m_yPosition b - yPos\<rparr>"

definition setVelocity :: "Ball \<Rightarrow> real \<Rightarrow> real \<Rightarrow> Ball" where
  "setVelocity b xVel yVel = b\<lparr>m_xVelocity := xVel, m_yVelocity := yVel\<rparr>"

definition addVelocity :: "Ball \<Rightarrow> real \<Rightarrow> real \<Rightarrow> Ball" where
  "addVelocity b xVel yVel =
     b\<lparr>m_xVelocity := m_xVelocity b + xVel, m_yVelocity := m_yVelocity b + yVel\<rparr>"

definition subVelocity :: "Ball \<Rightarrow> real \<Rightarrow> real \<Rightarrow> Ball" where
  "subVelocity b xVel yVel =
     b\<lparr>m_xVelocity := m_xVelocity b - xVel, m_yVelocity := m_yVelocity b - yVel\<rparr>"



definition setVisible :: "Ball \<Rightarrow> bool \<Rightarrow> Ball" where
  "setVisible b v = b\<lparr>m_visible := v\<rparr>"

subsection \<open>Overlap test\<close>

text \<open>
  The balls live in one vector; a ball object is its index there, so the pointer
  comparison \<open>&otherBall == this\<close> is the comparison of the two indices.
\<close>

definition isOverlappingBall :: "Ball list \<Rightarrow> nat \<Rightarrow> nat \<Rightarrow> bool" where
  "isOverlappingBall gameBalls this otherBall =
     (if otherBall = this then False
      else
        let radiusLength = m_radius (gameBalls ! this) + getRadius (gameBalls ! otherBall);
            deltaX = m_xPosition (gameBalls ! this) - m_xPosition (gameBalls ! otherBall);
            deltaY = m_yPosition (gameBalls ! this) - m_yPosition (gameBalls ! otherBall)
        in deltaX * deltaX + deltaY * deltaY \<le> radiusLength * radiusLength)"

subsection \<open>Helpers of \<open>utilities.h\<close>\<close>

text \<open>
  Modelled from the spec: \<open>calculateHypotenuse\<close> and \<open>dotProduct\<close> are defined in
  \<open>utilities.h\<close>, which is missing. The spec calls the first the Euclidean distance
  between the centers and the second \<open>dot(n, \<Delta>v)\<close>; the call in \<open>physics.cpp\<close> passes
  the arguments as \<open>(normalX, deltaVelocityX, normalY, deltaVelocityY)\<close>.
\<close>

definition calculateHypotenuse :: "real \<Rightarrow> real \<Rightarrow> real" where
  "calculateHypotenuse a b = sqrt (a * a + b * b)"

definition dotProduct :: "real \<Rightarrow> real \<Rightarrow> real \<Rightarrow> real \<Rightarrow> real" where
  "dotProduct x1 x2 y1 y2 = x1 * x2 + y1 * y2"

section \<open>Configuration\<close>

text \<open>
  \<open>constants.h\<close> is missing: the values of \<open>consts::collisionFriction\<close>,
  \<open>consts::rollingFriction\<close>, \<open>consts::stoppingVelocity\<close> and \<open>consts::playSurface\<close> are
  parameters of the model, collected in one record (named \<open>Consts\<close> after the namespace).
\<close>

record Rectangle =
  xPos1 :: real
  yPos1 :: real
  xPos2 :: real
  yPos2 :: real

record Consts =
  collisionFriction :: real
  rollingFriction :: real
  stoppingVelocity :: real
  playSurface :: Rectangle

section \<open>Collision resolution (\<open>physics.cpp\<close>)\<close>

text \<open>
  Both functions take two references to distinct ball objects (they are called only after
  \<open>isOverlappingBall\<close>, which fails on one object) and update both; the model returns
  the two updated balls. The quotients by \<open>ballDistance\<close> and by the sum of the masses are
  guarded: a zero denominator is the result \<open>Inl DivisionByZero\<close>.
\<close>

definition resolveCircleCollisionPosition :: "Ball \<Rightarrow> Ball \<Rightarrow> error + Ball \<times> Ball" where
  "resolveCircleCollisionPosition ball1 ball2 =
     (let ballDistance = calculateHypotenuse (getX ball1 - getX ball2) (getY ball1 - getY ball2);
          ballOverlap = (ballDistance - getRadius ball1 - getRadius ball2) / 2
      in if ballDistance = 0 then Inl DivisionByZero
         else
           let moveDistanceX = ballOverlap * (getX ball1 - getX ball2) / ballDistance;
               moveDistanceY = ballOverlap * (getY ball1 - getY ball2) / ballDistance
           in Inr (subPosition ball1 moveDistanceX moveDistanceY,
                   addPosition ball2 moveDistanceX moveDistanceY))"

definition resolveCircleCollisionVelocity ::
    "Consts \<Rightarrow> Ball \<Rightarrow> Ball \<Rightarrow> error + Ball \<times> Ball" where
  "resolveCircleCollisionVelocity cfg ball1 ball2 =
     (let ballDistance = calculateHypotenuse (getX ball1 - getX ball2) (getY ball1 - getY ball2)
      in if ballDistance = 0 then Inl DivisionByZero
         else
           let normalX = (getX ball2 - getX ball1) / ballDistance;
               normalY = (getY ball2 - getY ball1) / ballDistance;
               deltaVelocityX = getVX ball1 - getVX ball2;
               deltaVelocityY = getVY ball1 - getVY ball2
           in if getMass ball1 + getMass ball2 = 0 then Inl DivisionByZero
              else
                let p = 2 * dotProduct normalX deltaVelocityX normalY deltaVelocityY
                          / (getMass ball1 + getMass ball2);
                    newVelocityX = p * normalX * collisionFriction cfg;
                    newVelocityY = p * normalY * collisionFriction cfg
                in Inr (subVelocity ball1 (newVelocityX * getMass ball2)
                                          (newVelocityY * getMass ball2),
                        addVelocity ball2 (newVelocityX * getMass ball1)
                                          (newVelocityY * getMass ball1)))"

definition resolveCircleBoundaryCollision :: "Consts \<Rightarrow> Ball \<Rightarrow> Rectangle \<Rightarrow> Ball" where
  "resolveCircleBoundaryCollision cfg ball boundary =
     (let (xPositionAdjustment, ballX) =
            (if getX ball - getRadius ball < xPos1 boundary then
               (xPos1 boundary - (getX ball - getRadius ball),
                setVelocity ball (- getVX ball * collisionFriction cfg) (getVY ball))
             else if getX ball + getRadius ball > xPos2 boundary then
               (- (getX ball + getRadius ball - xPos2 boundary),
                setVelocity ball (- getVX ball * collisionFriction cfg) (getVY ball))
             else (0, ball));
          (yPositionAdjustment, ballY) =
            (if getY ballX - getRadius ballX < yPos1 boundary then
               (yPos1 boundary - (getY ballX - getRadius ballX),
                setVelocity ballX (getVX ballX) (- getVY ballX * collisionFriction cfg))
             else if getY ballX + getRadius ballX > yPos2 boundary then
               (- (getY ballX + getRadius ballX - yPos2 boundary),
                setVelocity ballX (getVX ballX) (- getVY ballX * collisionFriction cfg))
             else (0, ballX))
      in if xPositionAdjustment \<noteq> 0 \<or> yPositionAdjustment \<noteq> 0
         then addPosition ballY xPositionAdjustment yPositionAdjustment
         else ballY)"

section \<open>The motion stepper (\<open>physics::stepPhysics\<close>)\<close>

text \<open>
  Modelled from the spec: \<open>Ball::applyFriction\<close> is called by \<open>stepPhysics\<close> and its body
  is missing. The spec describes it as a proportional decay of the velocity that
  snaps to zero once the combined speed falls below the stopping threshold; the
  older \<open>Ball::movementStep\<close> of the sources does the same with these two branches.
\<close>

definition applyFriction :: "Ball \<Rightarrow> real \<Rightarrow> real \<Rightarrow> Ball" where
  "applyFriction b friction stopVelocity =
     (if calculateHypotenuse (m_xVelocity b) (m_yVelocity b) < stopVelocity
      then setVelocity b 0 0
      else b\<lparr>m_xVelocity := m_xVelocity b - m_xVelocity b * friction,
             m_yVelocity := m_yVelocity b - m_yVelocity b * friction\<rparr>)"

text \<open>
  Modelled from the spec: \<open>class Player\<close> and \<open>struct TurnInformation\<close> are declared in
  headers that are missing. \<open>pocketedBalls\<close> holds pointers into the vector of balls,
  here the indices of the balls.
\<close>

record Player =
  m_targetBallType :: BallType

abbreviation getTargetBallType :: "Player \<Rightarrow> BallType" where
  "getTargetBallType \<equiv> m_targetBallType"

definition setTargetBallType :: "Player \<Rightarrow> BallType \<Rightarrow> Player" where
  "setTargetBallType pl t = pl\<lparr>m_targetBallType := t\<rparr>"

record TurnInformation =
  firstHitBallType :: BallType
  pocketedBalls :: "nat list"
  turnPlayerIndex :: int

text \<open>The three objects \<open>stepPhysics\<close> updates in place.\<close>

record GameState =
  gameBalls :: "Ball list"
  gamePlayers :: "Player list"
  turn :: TurnInformation

text \<open>
  The body of the inner \<open>for (Ball& checkTarget : gameBalls)\<close> for one target: the ball
  at index \<open>i\<close> against the ball at index \<open>j\<close>, with the flag \<open>hasCollided\<close>.
\<close>

definition checkTarget ::
    "Consts \<Rightarrow> nat \<Rightarrow> nat \<Rightarrow> GameState \<times> bool \<Rightarrow> error + GameState \<times> bool" where
  "checkTarget cfg i j acc =
     (let st = fst acc; hasCollided = snd acc in
      if isOverlappingBall (gameBalls st) i j then
        (case resolveCircleCollisionPosition (gameBalls st ! i) (gameBalls st ! j) of
           Inl e \<Rightarrow> Inl e
         | Inr moved \<Rightarrow>
             (case resolveCircleCollisionVelocity cfg (fst moved) (snd moved) of
                Inl e \<Rightarrow> Inl e
              | Inr res \<Rightarrow>
                  let ball = fst res; target = snd res;
                      t = (if firstHitBallType (turn st) = undetermined
                           then (turn st)\<lparr>firstHitBallType :=
                                  (if getBallNumber ball = 0 then getBallType target
                                   else getBallType ball)\<rparr>
                           else turn st)
                  in Inr (st\<lparr>gameBalls := (gameBalls st)[i := ball, j := target],
                             turn := t\<rparr>, True)))
      else Inr (st, hasCollided))"

fun checkTargets ::
    "Consts \<Rightarrow> nat \<Rightarrow> nat list \<Rightarrow> GameState \<times> bool \<Rightarrow> error + GameState \<times> bool" where
  "checkTargets cfg i [] acc = Inr acc"
| "checkTargets cfg i (j # js) acc =
     (case checkTarget cfg i j acc of
        Inl e \<Rightarrow> Inl e
      | Inr acc' \<Rightarrow> checkTargets cfg i js acc')"

text \<open>
  One iteration of the \<open>while\<close> loop: move the ball by the step vector, then scan every
  ball of the vector.
\<close>

definition subStep ::
    "Consts \<Rightarrow> nat \<Rightarrow> real \<Rightarrow> real \<Rightarrow> GameState \<times> bool \<Rightarrow> error + GameState \<times> bool" where
  "subStep cfg i stepSizeX stepSizeY acc =
     (let st = fst acc;
          moved = st\<lparr>gameBalls :=
                      (gameBalls st)[i := addPosition (gameBalls st ! i) stepSizeX stepSizeY]\<rparr>
      in checkTargets cfg i [0..<length (gameBalls moved)] (moved, snd acc))"

text \<open>
  \<open>while (stepsNeeded > 0.0 && !hasCollided) { ...; --stepsNeeded; }\<close> with the
  counter a \<open>double\<close>, as in the source.
\<close>

function subSteps ::
    "Consts \<Rightarrow> nat \<Rightarrow> real \<Rightarrow> real \<Rightarrow> real \<Rightarrow> GameState \<times> bool \<Rightarrow> error + GameState \<times> bool"
where
  "subSteps cfg i stepSizeX stepSizeY stepsNeeded acc =
     (if stepsNeeded > 0 \<and> \<not> snd acc then
        (case subStep cfg i stepSizeX stepSizeY acc of
           Inl e \<Rightarrow> Inl e
         | Inr acc' \<Rightarrow> subSteps cfg i stepSizeX stepSizeY (stepsNeeded - 1) acc')
      else Inr acc)"
  by pat_completeness auto
termination
proof (relation "measure (\<lambda>(cfg, i, sx, sy, stepsNeeded, acc). nat \<lceil>stepsNeeded\<rceil>)")
  show "wf (measure (\<lambda>(cfg :: Consts, i :: nat, sx :: real, sy :: real, stepsNeeded :: real,
              acc :: GameState \<times> bool). nat \<lceil>stepsNeeded\<rceil>))"
    by simp
next
  fix cfg :: Consts and i :: nat and stepSizeX stepSizeY stepsNeeded :: real
    and acc x2 :: "GameState \<times> bool"
  assume "0 < stepsNeeded \<and> \<not> snd acc"
  then have "0 < \<lceil>stepsNeeded\<rceil>" by simp
  moreover have "\<lceil>stepsNeeded - 1\<rceil> = \<lceil>stepsNeeded\<rceil> - 1" by simp
  ultimately show "((cfg, i, stepSizeX, stepSizeY, stepsNeeded - 1, x2),
           (cfg, i, stepSizeX, stepSizeY, stepsNeeded, acc))
          \<in> measure (\<lambda>(cfg, i, sx, sy, stepsNeeded, acc). nat \<lceil>stepsNeeded\<rceil>)"
    by simp
qed

declare subSteps.simps [simp del]

text \<open>
  The locals \<open>velocitySum\<close>, \<open>stepsNeeded\<close>, \<open>stepSizeX\<close> and \<open>stepSizeY\<close> of
  \<open>stepPhysics\<close>, as functions of the ball they are computed from. \<open>std::ceil\<close> returns
  the least integer not below its argument, as a \<open>double\<close>.
\<close>

definition ballVelocitySum :: "Ball \<Rightarrow> real" where
  "ballVelocitySum ball = \<bar>getVX ball\<bar> + \<bar>getVY ball\<bar>"

definition ballStepsNeeded :: "Ball \<Rightarrow> real" where
  "ballStepsNeeded ball = of_int \<lceil>ballVelocitySum ball / getRadius ball\<rceil>"

definition ballStepSizeX :: "Ball \<Rightarrow> real" where
  "ballStepSizeX ball = getVX ball / ballStepsNeeded ball"

definition ballStepSizeY :: "Ball \<Rightarrow> real" where
  "ballStepSizeY ball = getVY ball / ballStepsNeeded ball"

text \<open>
  The pocket test after the loop (\<open>if (ball.isInPocket()) ...\<close>). \<open>Ball::isInPocket\<close> is
  missing, and so are the pocket regions it tests: the test is the parameter
  \<open>isInPocket\<close>. \<open>gamePlayers[turn.turnPlayerIndex]\<close> outside the vector is undefined
  behaviour in C++, here \<open>Inl IndexOutOfRange\<close>.
\<close>

definition pocketBall :: "(Ball \<Rightarrow> bool) \<Rightarrow> nat \<Rightarrow> GameState \<Rightarrow> error + GameState" where
  "pocketBall isInPocket i st =
     (if isInPocket (gameBalls st ! i) then
        let ball = setVisible (gameBalls st ! i) False;
            st1 = st\<lparr>gameBalls := (gameBalls st)[i := ball],
                     turn := (turn st)\<lparr>pocketedBalls := pocketedBalls (turn st) @ [i]\<rparr>\<rparr>;
            idx = turnPlayerIndex (turn st)
        in if idx < 0 \<or> int (length (gamePlayers st)) \<le> idx then Inl IndexOutOfRange
           else if getTargetBallType (gamePlayers st ! nat idx) = undetermined then
             if getBallType ball = solid \<or> getBallType ball = striped then
               let ps1 = (gamePlayers st)[nat idx := setTargetBallType (gamePlayers st ! nat idx)
                                                       (getBallType ball)];
                   opp = (nat idx + 1) mod length (gamePlayers st);
                   ps2 = ps1[opp := setTargetBallType (ps1 ! opp)
                                      (if getBallType ball = solid then striped else solid)]
               in Inr (st1\<lparr>gamePlayers := ps2\<rparr>)
             else Inr st1
           else Inr st1
      else Inr st)"

text \<open>
  The body of the outer \<open>for (Ball& ball : gameBalls)\<close> for the ball at index \<open>i\<close>. The
  quotient \<open>velocitySum / ball.getRadius()\<close> is guarded as the other quotients are.
\<close>

definition stepBall :: "Consts \<Rightarrow> (Ball \<Rightarrow> bool) \<Rightarrow> nat \<Rightarrow> GameState \<Rightarrow> error + GameState" where
  "stepBall cfg isInPocket i st =
     (let ball = gameBalls st ! i in
      if \<not> isVisible ball then Inr st
      else if getRadius ball = 0 then Inl DivisionByZero
      else if ballStepsNeeded ball > 0 then
        (case subSteps cfg i (ballStepSizeX ball) (ballStepSizeY ball) (ballStepsNeeded ball)
                (st, False) of
           Inl e \<Rightarrow> Inl e
         | Inr looped \<Rightarrow>
             (case pocketBall isInPocket i (fst looped) of
                Inl e \<Rightarrow> Inl e
              | Inr st2 \<Rightarrow>
                  Inr (st2\<lparr>gameBalls := (gameBalls st2)
                         [i := resolveCircleBoundaryCollision cfg
                                 (applyFriction (gameBalls st2 ! i) (rollingFriction cfg)
                                    (stoppingVelocity cfg))
                                 (playSurface cfg)]\<rparr>)))
      else Inr st)"

fun stepBalls ::
    "Consts \<Rightarrow> (Ball \<Rightarrow> bool) \<Rightarrow> nat list \<Rightarrow> GameState \<Rightarrow> error + GameState" where
  "stepBalls cfg isInPocket [] st = Inr st"
| "stepBalls cfg isInPocket (i # is) st =
     (case stepBall cfg isInPocket i st of
        Inl e \<Rightarrow> Inl e
      | Inr st' \<Rightarrow> stepBalls cfg isInPocket is st')"

definition stepPhysics :: "Consts \<Rightarrow> (Ball \<Rightarrow> bool) \<Rightarrow> GameState \<Rightarrow> error + GameState" where
  "stepPhysics cfg isInPocket st = stepBalls cfg isInPocket [0..<length (gameBalls st)] st"

text \<open>
  An auxiliary notion for stating properties of the loop: \<open>k\<close> consecutive iterations
  of its body from \<open>st\<close>, none of which fails or registers a collision, and the state
  they lead to.
\<close>

fun quietSteps ::
    "Consts \<Rightarrow> nat \<Rightarrow> real \<Rightarrow> real \<Rightarrow> nat \<Rightarrow> GameState \<Rightarrow> GameState option" where
  "quietSteps cfg i stepSizeX stepSizeY 0 st = Some st"
| "quietSteps cfg i stepSizeX stepSizeY (Suc k) st =
     (case subStep cfg i stepSizeX stepSizeY (st, False) of
        Inl e \<Rightarrow> None
      | Inr acc \<Rightarrow> if snd acc then None else quietSteps cfg i stepSizeX stepSizeY k (fst acc))"

section \<open>Binary64 arithmetic\<close>

text \<open>
  A finite \<open>double\<close> is a real number \<open>m * 2 ^ e\<close> with an integer \<open>m\<close> of at most 53 bits.
  An IEEE 754 operation returns the exact result rounded to the nearest such number,
  ties going to the even \<open>m\<close>: \<open>fl\<close>. For \<open>x \<noteq> 0\<close>, \<open>binade x\<close> is the exponent \<open>e\<close> with
  \<open>2 ^ e \<le> \<bar>x\<bar> < 2 ^ (e + 1)\<close>, and the spacing of the doubles around \<open>x\<close> is
  \<open>2 ^ (e - 52)\<close>. The exponent range is not modelled (no overflow, no subnormal
  numbers): \<open>fl\<close> is binary64 rounding for results in the normal range.
  \<open>bitlen n\<close> is the number of binary digits of a positive integer \<open>n\<close>.
\<close>

function bitlen :: "int \<Rightarrow> nat" where
  "bitlen n = (if n \<le> 0 then 0 else Suc (bitlen (n div 2)))"
  by pat_completeness auto
termination
  by (relation "measure nat") auto

declare bitlen.simps [simp del]

definition pow2 :: "int \<Rightarrow> real" where
  "pow2 e = (if 0 \<le> e then 2 ^ nat e else 1 / 2 ^ nat (- e))"

definition binade :: "real \<Rightarrow> int" where
  "binade x =
     (if 1 \<le> \<bar>x\<bar> then int (bitlen \<lfloor>\<bar>x\<bar>\<rfloor>) - 1
      else
        let k = int (bitlen \<lfloor>1 / \<bar>x\<bar>\<rfloor>) - 1
        in if \<bar>x\<bar> * pow2 k = 1 then - k else - k - 1)"

definition roundEven :: "real \<Rightarrow> int" where
  "roundEven t =
     (let f = \<lfloor>t\<rfloor>; r = t - of_int f
      in if r < 1 / 2 then f
         else if 1 / 2 < r then f + 1
         else if even f then f else f + 1)"

definition fl :: "real \<Rightarrow> real" where
  "fl x = (if x = 0 then 0
           else let u = pow2 (binade x - 52) in of_int (roundEven (x / u)) * u)"

section \<open>The rounded embedding\<close>

text \<open>
  The functions below are the ones above with every \<open>double\<close> operation of the source
  rounded by \<open>fl\<close>, in the order in which C++ evaluates the expression: each operation
  is taken to round to binary64 on its own (no extended precision, no fused
  multiply-add). The fields of the balls are taken to hold doubles. \<open>std::abs\<close>, the
  unary minus and \<open>std::ceil\<close> are exact.
\<close>

definition addPosition_double :: "Ball \<Rightarrow> real \<Rightarrow> real \<Rightarrow> Ball" where
  "addPosition_double b xPos yPos =
     b\<lparr>m_xPosition := fl (m_xPosition b + xPos), m_yPosition := fl (m_yPosition b + yPos)\<rparr>"

definition subPosition_double :: "Ball \<Rightarrow> real \<Rightarrow> real \<Rightarrow> Ball" where
  "subPosition_double b xPos yPos =
     b\<lparr>m_xPosition := fl (m_xPosition b - xPos), m_yPosition := fl (m_yPosition b - yPos)\<rparr>"

definition isOverlappingBall_double :: "Ball list \<Rightarrow> nat \<Rightarrow> nat \<Rightarrow> bool" where
  "isOverlappingBall_double balls this otherBall =
     (if otherBall = this then False
      else
        let radiusLength = fl (m_radius (balls ! this) + getRadius (balls ! otherBall));
            deltaX = fl (m_xPosition (balls ! this) - m_xPosition (balls ! otherBall));
            deltaY = fl (m_yPosition (balls ! this) - m_yPosition (balls ! otherBall))
        in fl (fl (deltaX * deltaX) + fl (deltaY * deltaY)) \<le> fl (radiusLength * radiusLength))"

text \<open>
  Modelled from the spec: the body of \<open>calculateHypotenuse\<close> is missing, and with it the
  way it rounds. Its result is taken as the Euclidean distance of the spec, rounded
  once.
\<close>

definition calculateHypotenuse_double :: "real \<Rightarrow> real \<Rightarrow> real" where
  "calculateHypotenuse_double a b = fl (calculateHypotenuse a b)"

definition resolveCircleCollisionPosition_double :: "Ball \<Rightarrow> Ball \<Rightarrow> error + Ball \<times> Ball" where
  "resolveCircleCollisionPosition_double ball1 ball2 =
     (let ballDistance = calculateHypotenuse_double (fl (getX ball1 - getX ball2))
                           (fl (getY ball1 - getY ball2));
          ballOverlap = fl (fl (fl (ballDistance - getRadius ball1) - getRadius ball2) / 2)
      in if ballDistance = 0 then Inl DivisionByZero
         else
           let moveDistanceX = fl (fl (ballOverlap * fl (getX ball1 - getX ball2)) / ballDistance);
               moveDistanceY = fl (fl (ballOverlap * fl (getY ball1 - getY ball2)) / ballDistance)
           in Inr (subPosition_double ball1 moveDistanceX moveDistanceY,
                   addPosition_double ball2 moveDistanceX moveDistanceY))"

definition resolveCircleBoundaryCollision_double :: "Consts \<Rightarrow> Ball \<Rightarrow> Rectangle \<Rightarrow> Ball" where
  "resolveCircleBoundaryCollision_double cfg ball boundary =
     (let (xPositionAdjustment, ballX) =
            (if fl (getX ball - getRadius ball) < xPos1 boundary then
               (fl (xPos1 boundary - fl (getX ball - getRadius ball)),
                setVelocity ball (fl (- getVX ball * collisionFriction cfg)) (getVY ball))
             else if fl (getX ball + getRadius ball) > xPos2 boundary then
               (- fl (fl (getX ball + getRadius ball) - xPos2 boundary),
                setVelocity ball (fl (- getVX ball * collisionFriction cfg)) (getVY ball))
             else (0, ball));
          (yPositionAdjustment, ballY) =
            (if fl (getY ballX - getRadius ballX) < yPos1 boundary then
               (fl (yPos1 boundary - fl (getY ballX - getRadius ballX)),
                setVelocity ballX (getVX ballX) (fl (- getVY ballX * collisionFriction cfg)))
             else if fl (getY ballX + getRadius ballX) > yPos2 boundary then
               (- fl (fl (getY ballX + getRadius ballX) - yPos2 boundary),
                setVelocity ballX (getVX ballX) (fl (- getVY ballX * collisionFriction cfg)))
             else (0, ballX))
      in if xPositionAdjustment \<noteq> 0 \<or> yPositionAdjustment \<noteq> 0
         then addPosition_double ballY xPositionAdjustment yPositionAdjustment
         else ballY)"

definition ballVelocitySum_double :: "Ball \<Rightarrow> real" where
  "ballVelocitySum_double ball = fl (\<bar>getVX ball\<bar> + \<bar>getVY ball\<bar>)"

definition ballStepsNeeded_double :: "Ball \<Rightarrow> real" where
  "ballStepsNeeded_double ball = of_int \<lceil>fl (ballVelocitySum_double ball / getRadius ball)\<rceil>"

definition ballStepSizeX_double :: "Ball \<Rightarrow> real" where
  "ballStepSizeX_double ball = fl (getVX ball / ballStepsNeeded_double ball)"

definition ballStepSizeY_double :: "Ball \<Rightarrow> real" where
  "ballStepSizeY_double ball = fl (getVY ball / ballStepsNeeded_double ball)"

section \<open>Example inputs\<close>

text \<open>
  Concrete balls, constants and game states on which the theorems below are
  instantiated. The constants are sample values: the program's own are in the missing
  \<open>constants.h\<close>.
\<close>

definition exampleBall :: Ball where
  "exampleBall = \<lparr>m_xPosition = 0, m_yPosition = 0, m_xVelocity = 0, m_yVelocity = 0,
                   m_radius = 1, m_mass = 1, m_visible = True, m_ballType = solid,
                   m_ballNumber = 1\<rparr>"

definition exampleConsts :: Consts where
  "exampleConsts = \<lparr>collisionFriction = 1, rollingFriction = 1 / 100,
                     stoppingVelocity = 1 / 10,
                     playSurface = \<lparr>xPos1 = 0, yPos1 = 0, xPos2 = 10, yPos2 = 10\<rparr>\<rparr>"

definition exampleTurn :: TurnInformation where
  "exampleTurn = \<lparr>firstHitBallType = undetermined, pocketedBalls = [], turnPlayerIndex = 0\<rparr>"

definition examplePlayers :: "Player list" where
  "examplePlayers = [\<lparr>m_targetBallType = undetermined\<rparr>, \<lparr>m_targetBallType = undetermined\<rparr>]"

text \<open>A pocket in the corner at the origin of the play surface.\<close>

definition examplePocket :: "Ball \<Rightarrow> bool" where
  "examplePocket b = (getX b \<le> 1 \<and> getY b \<le> 1)"

text \<open>
  Games for the stepper: a cue ball rolling towards an object ball, a ball at rest in
  the pocket, and a ball rolling into the pocket.
\<close>

definition cueBall :: Ball where
  "cueBall = exampleBall\<lparr>m_xVelocity := 3, m_ballType := cue, m_ballNumber := 0\<rparr>"

definition exampleGame :: GameState where
  "exampleGame = \<lparr>gameBalls = [cueBall, exampleBall\<lparr>m_xPosition := 7 / 2\<rparr>],
                   gamePlayers = examplePlayers, turn = exampleTurn\<rparr>"

definition restingGame :: GameState where
  "restingGame = \<lparr>gameBalls = [exampleBall\<lparr>m_xPosition := 1, m_yPosition := 1\<rparr>],
                   gamePlayers = examplePlayers, turn = exampleTurn\<rparr>"

definition rollingGame :: GameState where
  "rollingGame = \<lparr>gameBalls = [exampleBall\<lparr>m_xPosition := 3, m_yPosition := 1,
                                             m_xVelocity := - 2\<rparr>],
                   gamePlayers = examplePlayers, turn = exampleTurn\<rparr>"

section \<open>Facts about the helpers\<close>

lemma calculateHypotenuse_axis: "calculateHypotenuse a 0 = \<bar>a\<bar>"
  by (simp add: calculateHypotenuse_def)

lemma calculateHypotenuse_nonneg: "0 \<le> calculateHypotenuse a b"
  by (simp add: calculateHypotenuse_def)

lemma calculateHypotenuse_power2: "(calculateHypotenuse a b)\<^sup>2 = a * a + b * b"
  by (simp add: calculateHypotenuse_def)

lemma calculateHypotenuse_eq_0_iff: "calculateHypotenuse a b = 0 \<longleftrightarrow> a = 0 \<and> b = 0"
  by (simp add: calculateHypotenuse_def add_nonneg_eq_0_iff)

lemma calculateHypotenuse_scale:
  "calculateHypotenuse (c * a) (c * b) = \<bar>c\<bar> * calculateHypotenuse a b"
proof -
  have "c * a * (c * a) + c * b * (c * b) = c\<^sup>2 * (a * a + b * b)"
    by (simp add: power2_eq_square algebra_simps)
  then show ?thesis
    by (simp add: calculateHypotenuse_def real_sqrt_mult)
qed

lemmas fl_eval = fl_def binade_def roundEven_def pow2_def bitlen.simps Let_def

text \<open>
  Rounding at work: \<open>0.1\<close> is the double \<open>0x1.999999999999ap-4\<close>; small integers and
  their halves are doubles; above \<open>2 ^ 53\<close> the doubles are the even integers, and a tie
  goes to the one with the even significand.
\<close>

lemma fl_examples:
  "fl (1 / 10) = 3602879701896397 / 36028797018963968"
  "fl 1 = 1" "fl (- 3 / 2) = - 3 / 2" "fl 0 = 0"
  "fl 9007199254740993 = 9007199254740992"
  "fl 9007199254740995 = 9007199254740996"
  "fl (fl (1 / 10) + fl (2 / 10)) = 1351079888211149 / 4503599627370496"
  by code_simp+

section \<open>The overlap test\<close>

text \<open>
  Claim C9 as stated fails on the rounded embedding: the balls of radius 3.16 at the
  origin and of radius 4.74 at \<open>(4.74, 6.32)\<close> (as doubles) touch exactly, \<open>d = ra + rb\<close>,
  and the overlap test on them is false (62.41000000000001 against 62.410000000000004).
\<close>

theorem overlap_rounding_counterexample:
  "calculateHypotenuse
      (getX (exampleBall\<lparr>m_radius := fl (316 / 100)\<rparr>)
         - getX (exampleBall\<lparr>m_xPosition := fl (474 / 100), m_yPosition := fl (632 / 100),
                              m_radius := fl (474 / 100)\<rparr>))
      (getY (exampleBall\<lparr>m_radius := fl (316 / 100)\<rparr>)
         - getY (exampleBall\<lparr>m_xPosition := fl (474 / 100), m_yPosition := fl (632 / 100),
                              m_radius := fl (474 / 100)\<rparr>))
    = getRadius (exampleBall\<lparr>m_radius := fl (316 / 100)\<rparr>)
        + getRadius (exampleBall\<lparr>m_xPosition := fl (474 / 100), m_yPosition := fl (632 / 100),
                                   m_radius := fl (474 / 100)\<rparr>)
 \<and> \<not> isOverlappingBall_double
         [exampleBall\<lparr>m_radius := fl (316 / 100)\<rparr>,
          exampleBall\<lparr>m_xPosition := fl (474 / 100), m_yPosition := fl (632 / 100),
                       m_radius := fl (474 / 100)\<rparr>] 0 1"
proof -
  have a: "fl (316 / 100) = 889460926405673 / 281474976710656"
    and b: "fl (474 / 100) = 2668382779217019 / 562949953421312"
    and c: "fl (632 / 100) = 889460926405673 / 140737488355328"
    by code_simp+
  have touch: "calculateHypotenuse
      (getX (exampleBall\<lparr>m_radius := fl (316 / 100)\<rparr>)
         - getX (exampleBall\<lparr>m_xPosition := fl (474 / 100), m_yPosition := fl (632 / 100),
                              m_radius := fl (474 / 100)\<rparr>))
      (getY (exampleBall\<lparr>m_radius := fl (316 / 100)\<rparr>)
         - getY (exampleBall\<lparr>m_xPosition := fl (474 / 100), m_yPosition := fl (632 / 100),
                              m_radius := fl (474 / 100)\<rparr>))
    = getRadius (exampleBall\<lparr>m_radius := fl (316 / 100)\<rparr>)
        + getRadius (exampleBall\<lparr>m_xPosition := fl (474 / 100), m_yPosition := fl (632 / 100),
                                   m_radius := fl (474 / 100)\<rparr>)"
    unfolding a b c calculateHypotenuse_def
    by (rule real_sqrt_unique) (simp_all add: exampleBall_def power2_eq_square)
  have no: "\<not> isOverlappingBall_double
         [exampleBall\<lparr>m_radius := fl (316 / 100)\<rparr>,
          exampleBall\<lparr>m_xPosition := fl (474 / 100), m_yPosition := fl (632 / 100),
                       m_radius := fl (474 / 100)\<rparr>] 0 1"
    by code_simp
  from touch no show ?thesis by blast
qed

text \<open>
  Claim C9, amended. In exact arithmetic: for balls \<open>a\<close> and \<open>b\<close> of the vector with
  center distance \<open>d\<close>, \<open>isOverlappingBall\<close> holds exactly when they are not the same object
  and \<open>d\<^sup>2 \<le> (ra + rb)\<^sup>2\<close>; it fails on one and the same ball, and holds for two balls that
  exactly touch (\<open>d = ra + rb\<close>). In \<open>double\<close> arithmetic it fails on one and the same ball
  as well.
\<close>

theorem isOverlappingBall_iff:
  fixes bs :: "Ball list" and a b :: nat
  defines "d \<equiv> calculateHypotenuse (getX (bs ! a) - getX (bs ! b)) (getY (bs ! a) - getY (bs ! b))"
  shows "(isOverlappingBall bs a b \<longleftrightarrow>
            a \<noteq> b \<and> d\<^sup>2 \<le> (getRadius (bs ! a) + getRadius (bs ! b))\<^sup>2)
       \<and> \<not> isOverlappingBall bs a a
       \<and> (a \<noteq> b \<and> d = getRadius (bs ! a) + getRadius (bs ! b) \<longrightarrow> isOverlappingBall bs a b)
       \<and> \<not> isOverlappingBall_double bs a a"
proof -
  have sq: "d\<^sup>2 = (getX (bs ! a) - getX (bs ! b)) * (getX (bs ! a) - getX (bs ! b))
                + (getY (bs ! a) - getY (bs ! b)) * (getY (bs ! a) - getY (bs ! b))"
    unfolding d_def by (rule calculateHypotenuse_power2)
  have main: "isOverlappingBall bs a b \<longleftrightarrow>
            a \<noteq> b \<and> d\<^sup>2 \<le> (getRadius (bs ! a) + getRadius (bs ! b))\<^sup>2"
    unfolding sq by (auto simp: isOverlappingBall_def Let_def power2_eq_square)
  have self: "\<not> isOverlappingBall bs a a"
    by (simp add: isOverlappingBall_def)
  have touch: "a \<noteq> b \<and> d = getRadius (bs ! a) + getRadius (bs ! b) \<longrightarrow> isOverlappingBall bs a b"
    using main by simp
  have self_double: "\<not> isOverlappingBall_double bs a a"
    by (simp add: isOverlappingBall_double_def)
  from main self touch self_double show ?thesis by blast
qed

theorem isOverlappingBall_iff_witness:
  "isOverlappingBall [exampleBall, exampleBall\<lparr>m_xPosition := 2\<rparr>] 0 1
   \<and> \<not> isOverlappingBall [exampleBall, exampleBall\<lparr>m_xPosition := 2\<rparr>] 0 0"
proof -
  let ?bs = "[exampleBall, exampleBall\<lparr>m_xPosition := 2\<rparr>]"
  have h: "(0::nat) \<noteq> 1 \<and>
      calculateHypotenuse (getX (?bs ! 0) - getX (?bs ! 1)) (getY (?bs ! 0) - getY (?bs ! 1))
        = getRadius (?bs ! 0) + getRadius (?bs ! 1)"
    by (simp add: exampleBall_def calculateHypotenuse_axis)
  from isOverlappingBall_iff [of ?bs 0 1] h show ?thesis by blast
qed

section \<open>The validated setters\<close>



section \<open>Bounded sub-steps\<close>

text \<open>
  Claim C3 as stated fails on the rounded embedding: for the ball with
  \<open>vx = 0x1.1700000000002p+6\<close>, \<open>vy = 0\<close> and radius \<open>0x1.f000000000003p+2\<close> (both
  doubles) the rounded quotient is 9, so \<open>stepsNeeded\<close> is 9, and the step vector is
  longer than the radius.
\<close>

theorem step_rounding_counterexample:
  "fl (2454109953196033 / 35184372088832) = 2454109953196033 / 35184372088832
 \<and> fl (8725724278030339 / 1125899906842624) = 8725724278030339 / 1125899906842624
 \<and> 0 < getRadius (exampleBall\<lparr>m_xVelocity := 2454109953196033 / 35184372088832,
                                  m_radius := 8725724278030339 / 1125899906842624\<rparr>)
 \<and> ballStepsNeeded_double (exampleBall\<lparr>m_xVelocity := 2454109953196033 / 35184372088832,
                                  m_radius := 8725724278030339 / 1125899906842624\<rparr>) = 9
 \<and> getRadius (exampleBall\<lparr>m_xVelocity := 2454109953196033 / 35184372088832,
                              m_radius := 8725724278030339 / 1125899906842624\<rparr>)
     < calculateHypotenuse
         (ballStepSizeX_double (exampleBall\<lparr>m_xVelocity := 2454109953196033 / 35184372088832,
                                   m_radius := 8725724278030339 / 1125899906842624\<rparr>))
         (ballStepSizeY_double (exampleBall\<lparr>m_xVelocity := 2454109953196033 / 35184372088832,
                                   m_radius := 8725724278030339 / 1125899906842624\<rparr>))"
proof -
  let ?b = "exampleBall\<lparr>m_xVelocity := 2454109953196033 / 35184372088832,
                        m_radius := 8725724278030339 / 1125899906842624\<rparr>"
  have v: "fl (2454109953196033 / 35184372088832) = 2454109953196033 / 35184372088832"
    and rr: "fl (8725724278030339 / 1125899906842624) = 8725724278030339 / 1125899906842624"
    by code_simp+
  have r: "0 < getRadius ?b" by simp
  have n: "ballStepsNeeded_double ?b = 9" by code_simp
  have sx: "ballStepSizeX_double ?b = 2181431069507585 / 281474976710656"
    by code_simp
  have sy: "ballStepSizeY_double ?b = 0"
    by code_simp
  have m: "getRadius ?b < calculateHypotenuse (ballStepSizeX_double ?b) (ballStepSizeY_double ?b)"
    unfolding sx sy calculateHypotenuse_axis by simp
  from v rr r n m show ?thesis by blast
qed

text \<open>
  Claim C3, amended. In exact arithmetic: for a ball of positive radius whose
  \<open>stepsNeeded\<close> is at least 1, the step vector \<open>(vx / stepsNeeded, vy / stepsNeeded)\<close> is
  at most one radius long.
\<close>

theorem step_within_radius:
  assumes r: "0 < getRadius b" and s: "1 \<le> ballStepsNeeded b"
  shows "calculateHypotenuse (ballStepSizeX b) (ballStepSizeY b) \<le> getRadius b"
proof -
  define n where "n = ballStepsNeeded b"
  have npos: "0 < n" using s by (simp add: n_def)
  have "ballVelocitySum b / getRadius b \<le> n"
    unfolding n_def ballStepsNeeded_def by (rule le_of_int_ceiling)
  then have sum_le: "ballVelocitySum b \<le> n * getRadius b"
    using r by (simp add: pos_divide_le_eq)
  have "calculateHypotenuse (ballStepSizeX b) (ballStepSizeY b)
          = sqrt ((getVX b)\<^sup>2 + (getVY b)\<^sup>2) / n"
  proof -
    have "(getVX b / n) * (getVX b / n) + (getVY b / n) * (getVY b / n)
            = ((getVX b)\<^sup>2 + (getVY b)\<^sup>2) / n\<^sup>2"
      by (simp add: power2_eq_square add_divide_distrib)
    then show ?thesis
      using npos
      by (simp add: calculateHypotenuse_def ballStepSizeX_def ballStepSizeY_def n_def [symmetric]
            real_sqrt_divide)
  qed
  also have "\<dots> \<le> ballVelocitySum b / n"
    using npos sqrt_sum_squares_le_sum_abs [of "getVX b" "getVY b"]
    by (simp add: ballVelocitySum_def divide_right_mono)
  also have "\<dots> \<le> getRadius b"
    using npos sum_le by (simp add: pos_divide_le_eq mult.commute)
  finally show ?thesis .
qed

theorem step_within_radius_witness:
  "0 < getRadius (exampleBall\<lparr>m_xVelocity := 3, m_yVelocity := 4, m_radius := 2\<rparr>)
 \<and> ballStepsNeeded (exampleBall\<lparr>m_xVelocity := 3, m_yVelocity := 4, m_radius := 2\<rparr>) = 4
 \<and> calculateHypotenuse
       (ballStepSizeX (exampleBall\<lparr>m_xVelocity := 3, m_yVelocity := 4, m_radius := 2\<rparr>))
       (ballStepSizeY (exampleBall\<lparr>m_xVelocity := 3, m_yVelocity := 4, m_radius := 2\<rparr>))
     \<le> getRadius (exampleBall\<lparr>m_xVelocity := 3, m_yVelocity := 4, m_radius := 2\<rparr>)"
proof -
  let ?b = "exampleBall\<lparr>m_xVelocity := 3, m_yVelocity := 4, m_radius := 2\<rparr>"
  have r: "0 < getRadius ?b" by simp
  have n: "ballStepsNeeded ?b = 4"
    by (simp add: ballStepsNeeded_def ballVelocitySum_def)
  then have s: "1 \<le> ballStepsNeeded ?b" by simp
  from r n step_within_radius [OF r s] show ?thesis by blast
qed

section \<open>Position resolution\<close>

lemma resolveCircleCollisionPosition_eq:
  fixes a b :: Ball
  defines "d \<equiv> calculateHypotenuse (getX a - getX b) (getY a - getY b)"
  defines "mx \<equiv> (d - getRadius a - getRadius b) / 2 * (getX a - getX b) / d"
    and "my \<equiv> (d - getRadius a - getRadius b) / 2 * (getY a - getY b) / d"
  assumes d: "d \<noteq> 0"
  shows "resolveCircleCollisionPosition a b = Inr (subPosition a mx my, addPosition b mx my)"
  unfolding resolveCircleCollisionPosition_def Let_def
  using d unfolding mx_def my_def d_def
  by (simp only: if_False)

text \<open>
  Claim C1 as stated fails on the rounded embedding: two overlapping balls of radius 1.5
  with centers \<open>(0, 0)\<close> and \<open>(0.1, 0)\<close> are resolved to centers that are less than
  \<open>ra + rb = 3\<close> apart (2.9999999999999996). The centers lie on the x axis, where the
  Euclidean distance is \<open>\<bar>dx\<bar>\<close>.
\<close>

theorem position_resolution_rounding_counterexample:
  "getX (exampleBall\<lparr>m_radius := 3 / 2\<rparr>)
     \<noteq> getX (exampleBall\<lparr>m_xPosition := fl (1 / 10), m_radius := 3 / 2\<rparr>)
 \<and> isOverlappingBall_double
       [exampleBall\<lparr>m_radius := 3 / 2\<rparr>,
        exampleBall\<lparr>m_xPosition := fl (1 / 10), m_radius := 3 / 2\<rparr>] 0 1
 \<and> resolveCircleCollisionPosition_double (exampleBall\<lparr>m_radius := 3 / 2\<rparr>)
       (exampleBall\<lparr>m_xPosition := fl (1 / 10), m_radius := 3 / 2\<rparr>)
     = Inr (exampleBall\<lparr>m_xPosition := - (3265109729843609 / 2251799813685248),
                         m_radius := 3 / 2\<rparr>,
            exampleBall\<lparr>m_xPosition := 1745144855606067 / 1125899906842624,
                         m_radius := 3 / 2\<rparr>)
 \<and> calculateHypotenuse
       (- (3265109729843609 / 2251799813685248) - 1745144855606067 / 1125899906842624) (0 - 0)
     < 3 / 2 + 3 / 2"
proof -
  have t: "fl (1 / 10) = 3602879701896397 / 36028797018963968"
    by code_simp
  have c: "getX (exampleBall\<lparr>m_radius := 3 / 2\<rparr>)
             \<noteq> getX (exampleBall\<lparr>m_xPosition := fl (1 / 10), m_radius := 3 / 2\<rparr>)"
    by (simp add: t exampleBall_def)
  have ov: "isOverlappingBall_double
       [exampleBall\<lparr>m_radius := 3 / 2\<rparr>,
        exampleBall\<lparr>m_xPosition := fl (1 / 10), m_radius := 3 / 2\<rparr>] 0 1"
    by code_simp
  have r: "resolveCircleCollisionPosition_double (exampleBall\<lparr>m_radius := 3 / 2\<rparr>)
       (exampleBall\<lparr>m_xPosition := fl (1 / 10), m_radius := 3 / 2\<rparr>)
     = Inr (exampleBall\<lparr>m_xPosition := - (3265109729843609 / 2251799813685248),
                         m_radius := 3 / 2\<rparr>,
            exampleBall\<lparr>m_xPosition := 1745144855606067 / 1125899906842624,
                         m_radius := 3 / 2\<rparr>)"
    by (simp add: resolveCircleCollisionPosition_double_def calculateHypotenuse_double_def
          calculateHypotenuse_axis subPosition_double_def addPosition_double_def exampleBall_def
          fl_eval)
  have d: "calculateHypotenuse
       (- (3265109729843609 / 2251799813685248) - 1745144855606067 / 1125899906842624) (0 - 0)
     < 3 / 2 + 3 / 2"
    by (simp add: calculateHypotenuse_axis)
  from c ov r d show ?thesis by blast
qed

text \<open>
  Claim C1, amended. In exact arithmetic: for two distinct balls with non-coincident
  centers, \<open>resolveCircleCollisionPosition\<close> returns; the displacement of the first ball
  is the exact negation of the displacement of the second; the second moves by
  \<open>overlap * (center1 - center2) / d\<close>, a vector along the center-to-center axis whose
  length is half the penetration depth \<open>\<bar>ra + rb - d\<bar>\<close>; and the recomputed center
  distance is at least \<open>ra + rb\<close>.
\<close>

theorem position_resolution_separates:
  fixes a b :: Ball
  defines "d \<equiv> calculateHypotenuse (getX a - getX b) (getY a - getY b)"
  defines "mx \<equiv> (d - getRadius a - getRadius b) / 2 * (getX a - getX b) / d"
    and "my \<equiv> (d - getRadius a - getRadius b) / 2 * (getY a - getY b) / d"
  assumes centers: "getX a \<noteq> getX b \<or> getY a \<noteq> getY b"
  shows "\<exists>a' b'. resolveCircleCollisionPosition a b = Inr (a', b')
           \<and> getX a' - getX a = - (getX b' - getX b)
           \<and> getY a' - getY a = - (getY b' - getY b)
           \<and> getX b' - getX b = mx \<and> getY b' - getY b = my
           \<and> calculateHypotenuse mx my = \<bar>getRadius a + getRadius b - d\<bar> / 2
           \<and> getRadius a' = getRadius a \<and> getRadius b' = getRadius b
           \<and> getRadius a' + getRadius b'
                \<le> calculateHypotenuse (getX a' - getX b') (getY a' - getY b')"
proof -
  have d0: "d \<noteq> 0"
    using centers by (auto simp: d_def calculateHypotenuse_eq_0_iff)
  have dpos: "0 < d"
    using d0 calculateHypotenuse_nonneg [of "getX a - getX b" "getY a - getY b"]
    by (simp add: d_def)
  define a' where "a' = subPosition a mx my"
  define b' where "b' = addPosition b mx my"
  have r: "resolveCircleCollisionPosition a b = Inr (a', b')"
    unfolding a'_def b'_def mx_def my_def d_def
    by (rule resolveCircleCollisionPosition_eq [OF d0 [unfolded d_def]])
  have pa: "getX a' = getX a - mx" "getY a' = getY a - my" "getRadius a' = getRadius a"
    by (simp_all add: a'_def subPosition_def)
  have pb: "getX b' = getX b + mx" "getY b' = getY b + my" "getRadius b' = getRadius b"
    by (simp_all add: b'_def addPosition_def)
  define c where "c = (d - getRadius a - getRadius b) / 2 / d"
  have mxy: "mx = c * (getX a - getX b)" "my = c * (getY a - getY b)"
    by (simp_all add: mx_def my_def c_def)
  have mag: "calculateHypotenuse mx my = \<bar>getRadius a + getRadius b - d\<bar> / 2"
  proof -
    have "calculateHypotenuse mx my = \<bar>c\<bar> * d"
      unfolding mxy calculateHypotenuse_scale d_def ..
    also have "\<dots> = \<bar>c * d\<bar>" using dpos by (simp add: abs_mult)
    also have "c * d = (d - getRadius a - getRadius b) / 2" using d0 by (simp add: c_def)
    also have "\<bar>(d - getRadius a - getRadius b) / 2\<bar> = \<bar>getRadius a + getRadius b - d\<bar> / 2"
    proof -
      have "\<bar>(d - getRadius a - getRadius b) / 2\<bar> = \<bar>d - (getRadius a + getRadius b)\<bar> / 2"
        by (simp add: diff_diff_eq)
      also have "\<dots> = \<bar>getRadius a + getRadius b - d\<bar> / 2"
        by (simp only: abs_minus_commute)
      finally show ?thesis .
    qed
    finally show ?thesis .
  qed
  define k where "k = (getRadius a + getRadius b) / d"
  have kx: "getX a' - getX b' = k * (getX a - getX b)"
    using d0 unfolding pa pb mx_def k_def by (simp add: field_simps)
  have ky: "getY a' - getY b' = k * (getY a - getY b)"
    using d0 unfolding pa pb my_def k_def by (simp add: field_simps)
  have "calculateHypotenuse (getX a' - getX b') (getY a' - getY b') = \<bar>k\<bar> * d"
    unfolding kx ky calculateHypotenuse_scale d_def ..
  also have "\<dots> = \<bar>k * d\<bar>" using dpos by (simp add: abs_mult)
  also have "k * d = getRadius a + getRadius b" using d0 by (simp add: k_def)
  finally have "calculateHypotenuse (getX a' - getX b') (getY a' - getY b')
                  = \<bar>getRadius a + getRadius b\<bar>" .
  then have sep: "getRadius a' + getRadius b'
                \<le> calculateHypotenuse (getX a' - getX b') (getY a' - getY b')"
    by (simp add: pa pb)
  have neg: "getX a' - getX a = - (getX b' - getX b)" "getY a' - getY a = - (getY b' - getY b)"
    by (simp_all add: pa pb)
  have disp: "getX b' - getX b = mx" "getY b' - getY b = my"
    by (simp_all add: pb)
  from r neg disp mag pa(3) pb(3) sep show ?thesis by blast
qed

theorem position_resolution_separates_witness:
  "\<exists>a' b'. resolveCircleCollisionPosition exampleBall (exampleBall\<lparr>m_xPosition := 3 / 2\<rparr>)
              = Inr (a', b')
     \<and> getX a' = - (1 / 4) \<and> getX b' = 7 / 4 \<and> getY a' = 0 \<and> getY b' = 0
     \<and> 2 \<le> calculateHypotenuse (getX a' - getX b') (getY a' - getY b')"
proof -
  let ?a = "exampleBall" and ?b = "exampleBall\<lparr>m_xPosition := 3 / 2\<rparr>"
  have c: "getX ?a \<noteq> getX ?b \<or> getY ?a \<noteq> getY ?b"
    by (simp add: exampleBall_def)
  from position_resolution_separates [OF c] obtain a' b' where
    r: "resolveCircleCollisionPosition ?a ?b = Inr (a', b')"
    and facts: "getX a' - getX ?a = - (getX b' - getX ?b)"
      "getY a' - getY ?a = - (getY b' - getY ?b)"
      "getX b' - getX ?b =
         (calculateHypotenuse (getX ?a - getX ?b) (getY ?a - getY ?b)
            - getRadius ?a - getRadius ?b) / 2 * (getX ?a - getX ?b)
          / calculateHypotenuse (getX ?a - getX ?b) (getY ?a - getY ?b)"
      "getY b' - getY ?b =
         (calculateHypotenuse (getX ?a - getX ?b) (getY ?a - getY ?b)
            - getRadius ?a - getRadius ?b) / 2 * (getY ?a - getY ?b)
          / calculateHypotenuse (getX ?a - getX ?b) (getY ?a - getY ?b)"
      "getRadius a' = getRadius ?a" "getRadius b' = getRadius ?b"
      "getRadius a' + getRadius b' \<le> calculateHypotenuse (getX a' - getX b') (getY a' - getY b')"
    by blast
  have xb: "getX b' = 7 / 4" and yb: "getY b' = 0"
    using facts(3,4) by (simp_all add: exampleBall_def calculateHypotenuse_axis)
  have xa: "getX a' = - (1 / 4)" and ya: "getY a' = 0"
    using facts(1,2) xb yb by (simp_all add: exampleBall_def)
  have sep: "2 \<le> calculateHypotenuse (getX a' - getX b') (getY a' - getY b')"
    using facts(5,6,7) by (simp add: exampleBall_def)
  from r xa xb ya yb sep show ?thesis by blast
qed

section \<open>Coincident centers\<close>

text \<open>
  Claim C6. Two distinct balls whose centers coincide pass the overlap test, and on
  them both resolution functions reach the quotient by the zero center distance:
  in the model, the branch \<open>Inl DivisionByZero\<close>.
\<close>

theorem coincident_centers_divide_by_zero:
  assumes "i \<noteq> j"
    and "getX (bs ! i) = getX (bs ! j)" and "getY (bs ! i) = getY (bs ! j)"
  shows "isOverlappingBall bs i j
       \<and> resolveCircleCollisionPosition (bs ! i) (bs ! j) = Inl DivisionByZero
       \<and> resolveCircleCollisionVelocity cfg (bs ! i) (bs ! j) = Inl DivisionByZero"
  using assms
  by (simp add: isOverlappingBall_def resolveCircleCollisionPosition_def
        resolveCircleCollisionVelocity_def calculateHypotenuse_def)

theorem coincident_centers_divide_by_zero_witness:
  "isOverlappingBall [exampleBall, exampleBall\<lparr>m_ballNumber := 2\<rparr>] 0 1
 \<and> resolveCircleCollisionPosition exampleBall (exampleBall\<lparr>m_ballNumber := 2\<rparr>)
       = Inl DivisionByZero
 \<and> resolveCircleCollisionVelocity exampleConsts exampleBall (exampleBall\<lparr>m_ballNumber := 2\<rparr>)
       = Inl DivisionByZero"
  using coincident_centers_divide_by_zero
          [of 0 1 "[exampleBall, exampleBall\<lparr>m_ballNumber := 2\<rparr>]" exampleConsts]
  by simp

section \<open>Velocity resolution\<close>

lemma resolveCircleCollisionVelocity_eq:
  fixes a b :: Ball and cfg :: Consts
  defines "d \<equiv> calculateHypotenuse (getX a - getX b) (getY a - getY b)"
  defines "nx \<equiv> (getX b - getX a) / d" and "ny \<equiv> (getY b - getY a) / d"
  defines "p \<equiv> 2 * dotProduct nx (getVX a - getVX b) ny (getVY a - getVY b)
                    / (getMass a + getMass b)"
  assumes d: "d \<noteq> 0" and m: "getMass a + getMass b \<noteq> 0"
  shows "resolveCircleCollisionVelocity cfg a b =
           Inr (subVelocity a (p * nx * collisionFriction cfg * getMass b)
                              (p * ny * collisionFriction cfg * getMass b),
                addVelocity b (p * nx * collisionFriction cfg * getMass a)
                              (p * ny * collisionFriction cfg * getMass a))"
  unfolding resolveCircleCollisionVelocity_def Let_def
  using d m unfolding p_def nx_def ny_def d_def
  by (simp only: if_False)

lemma unit_normal:
  fixes dx dy :: real
  assumes "calculateHypotenuse dx dy \<noteq> 0"
  shows "(dx / calculateHypotenuse dx dy)\<^sup>2 + (dy / calculateHypotenuse dx dy)\<^sup>2 = 1"
proof -
  have "(dx / calculateHypotenuse dx dy)\<^sup>2 + (dy / calculateHypotenuse dx dy)\<^sup>2
          = (dx * dx + dy * dy) / (calculateHypotenuse dx dy)\<^sup>2"
    by (simp add: power_divide add_divide_distrib power2_eq_square)
  also have "\<dots> = 1"
  proof -
    have "(calculateHypotenuse dx dy)\<^sup>2 = dx * dx + dy * dy"
      by (rule calculateHypotenuse_power2)
    moreover have "(calculateHypotenuse dx dy)\<^sup>2 \<noteq> 0"
      using assms by simp
    ultimately show ?thesis by simp
  qed
  finally show ?thesis .
qed

lemma energy_after_impulse:
  fixes ma mb j nx ny :: real
  assumes n: "nx\<^sup>2 + ny\<^sup>2 = 1"
  shows "ma * ((vxa - j * nx * mb)\<^sup>2 + (vya - j * ny * mb)\<^sup>2) / 2
       + mb * ((vxb + j * nx * ma)\<^sup>2 + (vyb + j * ny * ma)\<^sup>2) / 2
       = ma * (vxa\<^sup>2 + vya\<^sup>2) / 2 + mb * (vxb\<^sup>2 + vyb\<^sup>2) / 2
         + ma * mb * j * ((ma + mb) * j / 2 - (nx * (vxa - vxb) + ny * (vya - vyb)))"
proof -
  have "ma * ((vxa - j * nx * mb)\<^sup>2 + (vya - j * ny * mb)\<^sup>2) / 2
       + mb * ((vxb + j * nx * ma)\<^sup>2 + (vyb + j * ny * ma)\<^sup>2) / 2
       = ma * (vxa\<^sup>2 + vya\<^sup>2) / 2 + mb * (vxb\<^sup>2 + vyb\<^sup>2) / 2
         + ma * mb * j * ((ma + mb) * j * (nx\<^sup>2 + ny\<^sup>2) / 2
                           - (nx * (vxa - vxb) + ny * (vya - vyb)))"
    by (simp add: power2_eq_square field_simps)
  then show ?thesis by (simp add: n)
qed


lemma unit_normal':
  fixes xa xb ya yb :: real
  defines "d \<equiv> calculateHypotenuse (xa - xb) (ya - yb)"
  assumes "d \<noteq> 0"
  shows "((xb - xa) / d)\<^sup>2 + ((yb - ya) / d)\<^sup>2 = 1"
proof -
  have "((xb - xa) / d)\<^sup>2 = ((xa - xb) / d)\<^sup>2" "((yb - ya) / d)\<^sup>2 = ((ya - yb) / d)\<^sup>2"
    by (simp_all add: power_divide power2_commute)
  then show ?thesis
    using unit_normal [of "xa - xb" "ya - yb"] assms by simp
qed

lemma energy_not_increased:
  fixes ma mb cf D j :: real
  assumes ma: "0 < ma" and mb: "0 < mb" and cf: "0 \<le> cf" "cf \<le> 1"
    and j: "j = 2 * D / (ma + mb) * cf"
  shows "ma * mb * j * ((ma + mb) * j / 2 - D) \<le> 0"
proof -
  have M: "ma + mb \<noteq> 0" "0 < ma + mb" using ma mb by simp_all
  have "(ma + mb) * j / 2 = D * cf" using M by (simp add: j)
  then have "ma * mb * j * ((ma + mb) * j / 2 - D) = ma * mb * (j * D) * (cf - 1)"
    by (simp add: algebra_simps)
  also have "j * D = 2 * cf * D\<^sup>2 / (ma + mb)"
    by (simp add: j power2_eq_square)
  finally have eq: "ma * mb * j * ((ma + mb) * j / 2 - D)
                      = (ma * mb * (2 * cf * D\<^sup>2 / (ma + mb))) * (cf - 1)" .
  have "0 \<le> ma * mb * (2 * cf * D\<^sup>2 / (ma + mb))"
    using ma mb cf(1) M(2) by simp
  moreover have "cf - 1 \<le> 0" using cf(2) by simp
  ultimately show ?thesis
    unfolding eq by (rule mult_nonneg_nonpos)
qed

text \<open>
  Claim C10. For two distinct balls with non-coincident centers and positive masses,
  and for every value of the restitution coefficient, \<open>resolveCircleCollisionVelocity\<close>
  returns and leaves the masses as they are; one impulse vector is subtracted from the
  first ball's velocity times the second ball's mass and added to the second ball's
  velocity times the first ball's mass, so that both components of the total momentum
  \<open>m1 * v1 + m2 * v2\<close> are conserved; and for a restitution coefficient between 0 and 1
  the kinetic energy does not grow.
\<close>

theorem total_momentum_conserved:
  assumes centers: "getX a \<noteq> getX b \<or> getY a \<noteq> getY b"
    and ma: "0 < getMass a" and mb: "0 < getMass b"
  shows "\<exists>a' b'. resolveCircleCollisionVelocity cfg a b = Inr (a', b')
           \<and> getMass a' = getMass a \<and> getMass b' = getMass b
           \<and> (\<exists>jx jy. getVX a' = getVX a - jx * getMass b \<and> getVY a' = getVY a - jy * getMass b
                     \<and> getVX b' = getVX b + jx * getMass a \<and> getVY b' = getVY b + jy * getMass a)
           \<and> getMass a' * getVX a' + getMass b' * getVX b'
               = getMass a * getVX a + getMass b * getVX b
           \<and> getMass a' * getVY a' + getMass b' * getVY b'
               = getMass a * getVY a + getMass b * getVY b
           \<and> (0 \<le> collisionFriction cfg \<and> collisionFriction cfg \<le> 1 \<longrightarrow>
                 getMass a' * ((getVX a')\<^sup>2 + (getVY a')\<^sup>2) / 2
                   + getMass b' * ((getVX b')\<^sup>2 + (getVY b')\<^sup>2) / 2
                 \<le> getMass a * ((getVX a)\<^sup>2 + (getVY a)\<^sup>2) / 2
                   + getMass b * ((getVX b)\<^sup>2 + (getVY b)\<^sup>2) / 2)"
proof -
  define d where "d = calculateHypotenuse (getX a - getX b) (getY a - getY b)"
  define nx where "nx = (getX b - getX a) / d"
  define ny where "ny = (getY b - getY a) / d"
  define D where "D = nx * (getVX a - getVX b) + ny * (getVY a - getVY b)"
  define p where "p = 2 * dotProduct nx (getVX a - getVX b) ny (getVY a - getVY b)
                        / (getMass a + getMass b)"
  define j where "j = p * collisionFriction cfg"
  have j: "j = 2 * D / (getMass a + getMass b) * collisionFriction cfg"
    by (simp add: j_def p_def D_def dotProduct_def)
  have d: "d \<noteq> 0"
    using centers by (auto simp: d_def calculateHypotenuse_eq_0_iff)
  have m: "getMass a + getMass b \<noteq> 0" using ma mb by simp
  define a' where "a' = subVelocity a (p * nx * collisionFriction cfg * getMass b)
                                      (p * ny * collisionFriction cfg * getMass b)"
  define b' where "b' = addVelocity b (p * nx * collisionFriction cfg * getMass a)
                                      (p * ny * collisionFriction cfg * getMass a)"
  have r: "resolveCircleCollisionVelocity cfg a b = Inr (a', b')"
    unfolding a'_def b'_def p_def nx_def ny_def d_def
    by (rule resolveCircleCollisionVelocity_eq [OF d [unfolded d_def] m])
  have va: "getVX a' = getVX a - j * nx * getMass b" "getVY a' = getVY a - j * ny * getMass b"
    and ma': "getMass a' = getMass a"
    by (simp_all add: a'_def subVelocity_def j_def mult_ac)
  have vb: "getVX b' = getVX b + j * nx * getMass a" "getVY b' = getVY b + j * ny * getMass a"
    and mb': "getMass b' = getMass b"
    by (simp_all add: b'_def addVelocity_def j_def mult_ac)
  have shape: "\<exists>jx jy. getVX a' = getVX a - jx * getMass b \<and> getVY a' = getVY a - jy * getMass b
                     \<and> getVX b' = getVX b + jx * getMass a \<and> getVY b' = getVY b + jy * getMass a"
    using va vb by blast
  have px: "getMass a' * getVX a' + getMass b' * getVX b'
               = getMass a * getVX a + getMass b * getVX b"
    unfolding va vb ma' mb' by (simp add: algebra_simps)
  have py: "getMass a' * getVY a' + getMass b' * getVY b'
               = getMass a * getVY a + getMass b * getVY b"
    unfolding va vb ma' mb' by (simp add: algebra_simps)
  have n: "nx\<^sup>2 + ny\<^sup>2 = 1"
    unfolding nx_def ny_def d_def by (rule unit_normal' [OF d [unfolded d_def]])
  have ke: "getMass a' * ((getVX a')\<^sup>2 + (getVY a')\<^sup>2) / 2
                   + getMass b' * ((getVX b')\<^sup>2 + (getVY b')\<^sup>2) / 2
          = getMass a * ((getVX a)\<^sup>2 + (getVY a)\<^sup>2) / 2
                   + getMass b * ((getVX b)\<^sup>2 + (getVY b)\<^sup>2) / 2
            + getMass a * getMass b * j * ((getMass a + getMass b) * j / 2 - D)"
    unfolding va vb ma' mb' D_def by (rule energy_after_impulse [OF n])
  have energy: "0 \<le> collisionFriction cfg \<and> collisionFriction cfg \<le> 1 \<longrightarrow>
                 getMass a' * ((getVX a')\<^sup>2 + (getVY a')\<^sup>2) / 2
                   + getMass b' * ((getVX b')\<^sup>2 + (getVY b')\<^sup>2) / 2
                 \<le> getMass a * ((getVX a)\<^sup>2 + (getVY a)\<^sup>2) / 2
                   + getMass b * ((getVX b)\<^sup>2 + (getVY b)\<^sup>2) / 2"
    unfolding ke using energy_not_increased [OF ma mb _ _ j] by simp
  from r ma' mb' shape px py energy show ?thesis by blast
qed

theorem total_momentum_conserved_witness:
  "\<exists>a' b'. resolveCircleCollisionVelocity (exampleConsts\<lparr>collisionFriction := 1 / 2\<rparr>)
              (exampleBall\<lparr>m_xVelocity := 1\<rparr>)
              (exampleBall\<lparr>m_xPosition := 2, m_mass := 3\<rparr>) = Inr (a', b')
     \<and> getMass a' * getVX a' + getMass b' * getVX b' = 1
     \<and> getMass a' * getVY a' + getMass b' * getVY b' = 0
     \<and> getMass a' * ((getVX a')\<^sup>2 + (getVY a')\<^sup>2) / 2
           + getMass b' * ((getVX b')\<^sup>2 + (getVY b')\<^sup>2) / 2 \<le> 1 / 2"
proof -
  let ?a = "exampleBall\<lparr>m_xVelocity := 1\<rparr>"
  let ?b = "exampleBall\<lparr>m_xPosition := 2, m_mass := 3\<rparr>"
  let ?c = "exampleConsts\<lparr>collisionFriction := 1 / 2\<rparr>"
  have c: "getX ?a \<noteq> getX ?b \<or> getY ?a \<noteq> getY ?b" by (simp add: exampleBall_def)
  have ma: "0 < getMass ?a" and mb: "0 < getMass ?b" by (simp_all add: exampleBall_def)
  have cf: "0 \<le> collisionFriction ?c \<and> collisionFriction ?c \<le> 1" by simp
  from total_momentum_conserved [OF c ma mb, of ?c] cf obtain a' b' where
    r: "resolveCircleCollisionVelocity ?c ?a ?b = Inr (a', b')"
    and px: "getMass a' * getVX a' + getMass b' * getVX b'
               = getMass ?a * getVX ?a + getMass ?b * getVX ?b"
    and py: "getMass a' * getVY a' + getMass b' * getVY b'
               = getMass ?a * getVY ?a + getMass ?b * getVY ?b"
    and ke: "getMass a' * ((getVX a')\<^sup>2 + (getVY a')\<^sup>2) / 2
                   + getMass b' * ((getVX b')\<^sup>2 + (getVY b')\<^sup>2) / 2
                 \<le> getMass ?a * ((getVX ?a)\<^sup>2 + (getVY ?a)\<^sup>2) / 2
                   + getMass ?b * ((getVX ?b)\<^sup>2 + (getVY ?b)\<^sup>2) / 2"
    by blast
  have "getMass a' * getVX a' + getMass b' * getVX b' = 1"
    unfolding px by (simp add: exampleBall_def)
  moreover have "getMass a' * getVY a' + getMass b' * getVY b' = 0"
    unfolding py by (simp add: exampleBall_def)
  moreover have "getMass a' * ((getVX a')\<^sup>2 + (getVY a')\<^sup>2) / 2
           + getMass b' * ((getVX b')\<^sup>2 + (getVY b')\<^sup>2) / 2 \<le> 1 / 2"
    using ke by (simp add: exampleBall_def)
  ultimately show ?thesis using r by blast
qed

text \<open>
  Claim C2. For two distinct balls with non-coincident centers and positive masses and
  the restitution coefficient 1, \<open>resolveCircleCollisionVelocity\<close> returns; with \<open>n\<close> the
  unit normal from the first center to the second and \<open>p = 2 * dot(n, v1 - v2) / (m1 + m2)\<close>,
  the first ball's velocity changes by \<open>- p * m2 * n\<close> and the second's by \<open>p * m1 * n\<close>
  (each in proportion to the other ball's mass), and the momentum along \<open>n\<close> is conserved.
\<close>

theorem normal_momentum_conserved:
  fixes a b :: Ball and cfg :: Consts
  defines "d \<equiv> calculateHypotenuse (getX a - getX b) (getY a - getY b)"
  defines "nx \<equiv> (getX b - getX a) / d" and "ny \<equiv> (getY b - getY a) / d"
  defines "p \<equiv> 2 * dotProduct nx (getVX a - getVX b) ny (getVY a - getVY b)
                    / (getMass a + getMass b)"
  assumes centers: "getX a \<noteq> getX b \<or> getY a \<noteq> getY b"
    and ma: "0 < getMass a" and mb: "0 < getMass b"
    and elastic: "collisionFriction cfg = 1"
  shows "\<exists>a' b'. resolveCircleCollisionVelocity cfg a b = Inr (a', b')
           \<and> getVX a' = getVX a - p * getMass b * nx
           \<and> getVY a' = getVY a - p * getMass b * ny
           \<and> getVX b' = getVX b + p * getMass a * nx
           \<and> getVY b' = getVY b + p * getMass a * ny
           \<and> getMass a * dotProduct nx (getVX a') ny (getVY a')
               + getMass b * dotProduct nx (getVX b') ny (getVY b')
             = getMass a * dotProduct nx (getVX a) ny (getVY a)
               + getMass b * dotProduct nx (getVX b) ny (getVY b)"
proof -
  have d: "d \<noteq> 0"
    using centers by (auto simp: d_def calculateHypotenuse_eq_0_iff)
  have m: "getMass a + getMass b \<noteq> 0" using ma mb by simp
  define a' where "a' = subVelocity a (p * nx * getMass b) (p * ny * getMass b)"
  define b' where "b' = addVelocity b (p * nx * getMass a) (p * ny * getMass a)"
  have r: "resolveCircleCollisionVelocity cfg a b = Inr (a', b')"
    unfolding a'_def b'_def p_def nx_def ny_def d_def
    by (simp add: resolveCircleCollisionVelocity_eq [OF d [unfolded d_def] m] elastic)
  have va: "getVX a' = getVX a - p * getMass b * nx" "getVY a' = getVY a - p * getMass b * ny"
    by (simp_all add: a'_def subVelocity_def)
  have vb: "getVX b' = getVX b + p * getMass a * nx" "getVY b' = getVY b + p * getMass a * ny"
    by (simp_all add: b'_def addVelocity_def)
  have "getMass a * dotProduct nx (getVX a') ny (getVY a')
               + getMass b * dotProduct nx (getVX b') ny (getVY b')
             = getMass a * dotProduct nx (getVX a) ny (getVY a)
               + getMass b * dotProduct nx (getVX b) ny (getVY b)"
    unfolding va vb dotProduct_def by (simp add: algebra_simps)
  with r va vb show ?thesis by blast
qed

theorem normal_momentum_conserved_witness:
  "\<exists>a' b'. resolveCircleCollisionVelocity exampleConsts
              (exampleBall\<lparr>m_xVelocity := 1\<rparr>)
              (exampleBall\<lparr>m_xPosition := 2, m_mass := 3\<rparr>) = Inr (a', b')
     \<and> getVX a' = - (1 / 2) \<and> getVY a' = 0 \<and> getVX b' = 1 / 2 \<and> getVY b' = 0"
proof -
  let ?a = "exampleBall\<lparr>m_xVelocity := 1\<rparr>"
  let ?b = "exampleBall\<lparr>m_xPosition := 2, m_mass := 3\<rparr>"
  have c: "getX ?a \<noteq> getX ?b \<or> getY ?a \<noteq> getY ?b" by (simp add: exampleBall_def)
  have ma: "0 < getMass ?a" and mb: "0 < getMass ?b" by (simp_all add: exampleBall_def)
  have e: "collisionFriction exampleConsts = 1" by (simp add: exampleConsts_def)
  have d: "calculateHypotenuse (getX ?a - getX ?b) (getY ?a - getY ?b) = 2"
    by (simp add: exampleBall_def calculateHypotenuse_axis)
  from normal_momentum_conserved [OF c ma mb e] obtain a' b' where
    r: "resolveCircleCollisionVelocity exampleConsts ?a ?b = Inr (a', b')"
    and v: "getVX a' = - (1 / 2)" "getVY a' = 0" "getVX b' = 1 / 2" "getVY b' = 0"
    unfolding d by (auto simp: exampleBall_def dotProduct_def)
  then show ?thesis by blast
qed

section \<open>Boundary resolution\<close>

lemma boundary_x:
  fixes b :: Ball and r :: Rectangle and cfg :: Consts
  defines "b' \<equiv> resolveCircleBoundaryCollision cfg b r"
  shows "getRadius b' = getRadius b"
    and "getX b - getRadius b < xPos1 r \<Longrightarrow>
           getX b' = xPos1 r + getRadius b \<and> getVX b' = - getVX b * collisionFriction cfg"
    and "\<not> getX b - getRadius b < xPos1 r \<Longrightarrow> xPos2 r < getX b + getRadius b \<Longrightarrow>
           getX b' = xPos2 r - getRadius b \<and> getVX b' = - getVX b * collisionFriction cfg"
    and "\<not> getX b - getRadius b < xPos1 r \<Longrightarrow> \<not> xPos2 r < getX b + getRadius b \<Longrightarrow>
           getX b' = getX b \<and> getVX b' = getVX b"
  unfolding b'_def
  by (auto simp: resolveCircleBoundaryCollision_def Let_def setVelocity_def addPosition_def
        split: if_splits)

lemma boundary_y:
  fixes b :: Ball and r :: Rectangle and cfg :: Consts
  defines "b' \<equiv> resolveCircleBoundaryCollision cfg b r"
  shows "getY b - getRadius b < yPos1 r \<Longrightarrow>
           getY b' = yPos1 r + getRadius b \<and> getVY b' = - getVY b * collisionFriction cfg"
    and "\<not> getY b - getRadius b < yPos1 r \<Longrightarrow> yPos2 r < getY b + getRadius b \<Longrightarrow>
           getY b' = yPos2 r - getRadius b \<and> getVY b' = - getVY b * collisionFriction cfg"
    and "\<not> getY b - getRadius b < yPos1 r \<Longrightarrow> \<not> yPos2 r < getY b + getRadius b \<Longrightarrow>
           getY b' = getY b \<and> getVY b' = getVY b"
  unfolding b'_def
  by (auto simp: resolveCircleBoundaryCollision_def Let_def setVelocity_def addPosition_def
        split: if_splits)


lemma sgn_bounce: "0 < c \<Longrightarrow> sgn (- v * c) = - sgn v" for v c :: real
  by (simp add: sgn_mult)

text \<open>
  Claim C8 as stated fails on the rounded embedding: the ball of radius 0.3 at \<open>x = 0.05\<close>
  against the side \<open>xPos1 = 0.1\<close> of a rectangle it fits in ends with its edge
  \<open>x' - r\<close> below \<open>xPos1\<close>. And with the restitution coefficient 0 the spec's scenario ends
  with the x-velocity 0, which is not positive.
\<close>

theorem boundary_rounding_counterexample:
  "2 * getRadius (exampleBall\<lparr>m_xPosition := fl (5 / 100), m_yPosition := 1 / 2,
                                m_radius := fl (3 / 10)\<rparr>) \<le> 1 - fl (1 / 10)
 \<and> getX (resolveCircleBoundaryCollision_double exampleConsts
           (exampleBall\<lparr>m_xPosition := fl (5 / 100), m_yPosition := 1 / 2,
                          m_radius := fl (3 / 10)\<rparr>)
           \<lparr>xPos1 = fl (1 / 10), yPos1 = 0, xPos2 = 1, yPos2 = 1\<rparr>)
     - getRadius (resolveCircleBoundaryCollision_double exampleConsts
           (exampleBall\<lparr>m_xPosition := fl (5 / 100), m_yPosition := 1 / 2,
                          m_radius := fl (3 / 10)\<rparr>)
           \<lparr>xPos1 = fl (1 / 10), yPos1 = 0, xPos2 = 1, yPos2 = 1\<rparr>)
     < fl (1 / 10)
 \<and> getVX (resolveCircleBoundaryCollision_double (exampleConsts\<lparr>collisionFriction := 0\<rparr>)
           (exampleBall\<lparr>m_xPosition := 1 / 2, m_yPosition := 5, m_xVelocity := - 1,
                          m_yVelocity := 0, m_radius := 1\<rparr>)
           \<lparr>xPos1 = 0, yPos1 = 0, xPos2 = 10, yPos2 = 10\<rparr>) = 0"
proof -
  let ?b = "exampleBall\<lparr>m_xPosition := fl (5 / 100), m_yPosition := 1 / 2,
                        m_radius := fl (3 / 10)\<rparr>"
  let ?r = "\<lparr>xPos1 = fl (1 / 10), yPos1 = 0, xPos2 = 1, yPos2 = 1\<rparr>"
  have fit: "2 * getRadius ?b \<le> 1 - fl (1 / 10)"
    by code_simp
  have x: "getX (resolveCircleBoundaryCollision_double exampleConsts ?b ?r)
             = 7205759403792793 / 18014398509481984"
    by code_simp
  have rad: "getRadius (resolveCircleBoundaryCollision_double exampleConsts ?b ?r)
             = 5404319552844595 / 18014398509481984"
    by code_simp
  have w: "fl (1 / 10) = 3602879701896397 / 36028797018963968"
    by code_simp
  have edge: "getX (resolveCircleBoundaryCollision_double exampleConsts ?b ?r)
               - getRadius (resolveCircleBoundaryCollision_double exampleConsts ?b ?r)
             < fl (1 / 10)"
    by (subst x, subst rad, subst w) simp
  have v: "getVX (resolveCircleBoundaryCollision_double (exampleConsts\<lparr>collisionFriction := 0\<rparr>)
           (exampleBall\<lparr>m_xPosition := 1 / 2, m_yPosition := 5, m_xVelocity := - 1,
                          m_yVelocity := 0, m_radius := 1\<rparr>)
           \<lparr>xPos1 = 0, yPos1 = 0, xPos2 = 10, yPos2 = 10\<rparr>) = 0"
    by code_simp
  from fit edge v show ?thesis by blast
qed

text \<open>
  Claim C8, amended. In exact arithmetic: for a ball whose diameter fits between the
  sides of the rectangle, after \<open>resolveCircleBoundaryCollision\<close> both edges of the ball
  lie within the rectangle on each axis; on an axis where a side was crossed the edge is
  flush with that side and the velocity component is the old one negated and scaled by
  the restitution coefficient, so that its sign is flipped when the coefficient is
  positive. Both axes are treated in the same call. The scenario of the spec (radius 1
  at \<open>(0.5, 5)\<close>, rectangle \<open>(0,0)-(10,10)\<close>, velocity \<open>(-1, 0)\<close>) ends at \<open>x = 1\<close>, with a
  positive x-velocity when the coefficient is positive.
\<close>

theorem boundary_resolution_flush:
  fixes b :: Ball and r :: Rectangle and cfg :: Consts
  defines "b' \<equiv> resolveCircleBoundaryCollision cfg b r"
  defines "s \<equiv> resolveCircleBoundaryCollision cfg
                  (exampleBall\<lparr>m_xPosition := 1 / 2, m_yPosition := 5, m_xVelocity := - 1,
                     m_yVelocity := 0, m_radius := 1\<rparr>)
                  \<lparr>xPos1 = 0, yPos1 = 0, xPos2 = 10, yPos2 = 10\<rparr>"
  assumes fitx: "2 * getRadius b \<le> xPos2 r - xPos1 r"
    and fity: "2 * getRadius b \<le> yPos2 r - yPos1 r"
  shows "xPos1 r \<le> getX b' - getRadius b' \<and> getX b' + getRadius b' \<le> xPos2 r
       \<and> yPos1 r \<le> getY b' - getRadius b' \<and> getY b' + getRadius b' \<le> yPos2 r
       \<and> (getX b - getRadius b < xPos1 r \<longrightarrow>
             getX b' - getRadius b' = xPos1 r
           \<and> getVX b' = - getVX b * collisionFriction cfg
           \<and> (0 < collisionFriction cfg \<longrightarrow> sgn (getVX b') = - sgn (getVX b)))
       \<and> (xPos2 r < getX b + getRadius b \<longrightarrow>
             getX b' + getRadius b' = xPos2 r
           \<and> getVX b' = - getVX b * collisionFriction cfg
           \<and> (0 < collisionFriction cfg \<longrightarrow> sgn (getVX b') = - sgn (getVX b)))
       \<and> (getY b - getRadius b < yPos1 r \<longrightarrow>
             getY b' - getRadius b' = yPos1 r
           \<and> getVY b' = - getVY b * collisionFriction cfg
           \<and> (0 < collisionFriction cfg \<longrightarrow> sgn (getVY b') = - sgn (getVY b)))
       \<and> (yPos2 r < getY b + getRadius b \<longrightarrow>
             getY b' + getRadius b' = yPos2 r
           \<and> getVY b' = - getVY b * collisionFriction cfg
           \<and> (0 < collisionFriction cfg \<longrightarrow> sgn (getVY b') = - sgn (getVY b)))
       \<and> getX s = 1 \<and> (0 < collisionFriction cfg \<longrightarrow> 0 < getVX s)"
proof -
  note bx = boundary_x [where b = b and r = r and cfg = cfg, folded b'_def]
  note by' = boundary_y [where b = b and r = r and cfg = cfg, folded b'_def]
  have inx: "xPos1 r \<le> getX b' - getRadius b' \<and> getX b' + getRadius b' \<le> xPos2 r"
    using bx fitx by (cases "getX b - getRadius b < xPos1 r";
                      cases "xPos2 r < getX b + getRadius b") auto
  have iny: "yPos1 r \<le> getY b' - getRadius b' \<and> getY b' + getRadius b' \<le> yPos2 r"
    using bx(1) by' fity by (cases "getY b - getRadius b < yPos1 r";
                      cases "yPos2 r < getY b + getRadius b") auto
  have lox: "getX b - getRadius b < xPos1 r \<longrightarrow>
             getX b' - getRadius b' = xPos1 r
           \<and> getVX b' = - getVX b * collisionFriction cfg
           \<and> (0 < collisionFriction cfg \<longrightarrow> sgn (getVX b') = - sgn (getVX b))"
    using bx(1,2) sgn_bounce [of "collisionFriction cfg" "getVX b"] by auto
  have hix: "xPos2 r < getX b + getRadius b \<longrightarrow>
             getX b' + getRadius b' = xPos2 r
           \<and> getVX b' = - getVX b * collisionFriction cfg
           \<and> (0 < collisionFriction cfg \<longrightarrow> sgn (getVX b') = - sgn (getVX b))"
    using bx(1,3) fitx sgn_bounce [of "collisionFriction cfg" "getVX b"] by auto
  have loy: "getY b - getRadius b < yPos1 r \<longrightarrow>
             getY b' - getRadius b' = yPos1 r
           \<and> getVY b' = - getVY b * collisionFriction cfg
           \<and> (0 < collisionFriction cfg \<longrightarrow> sgn (getVY b') = - sgn (getVY b))"
    using bx(1) by'(1) sgn_bounce [of "collisionFriction cfg" "getVY b"] by auto
  have hiy: "yPos2 r < getY b + getRadius b \<longrightarrow>
             getY b' + getRadius b' = yPos2 r
           \<and> getVY b' = - getVY b * collisionFriction cfg
           \<and> (0 < collisionFriction cfg \<longrightarrow> sgn (getVY b') = - sgn (getVY b))"
    using bx(1) by'(2) fity sgn_bounce [of "collisionFriction cfg" "getVY b"] by auto
  have sc: "getX s = 1 \<and> (0 < collisionFriction cfg \<longrightarrow> 0 < getVX s)"
    unfolding s_def
    by (simp add: resolveCircleBoundaryCollision_def Let_def setVelocity_def addPosition_def
          exampleBall_def)
  from inx iny lox hix loy hiy sc show ?thesis by blast
qed

theorem boundary_resolution_flush_witness:
  "getX (resolveCircleBoundaryCollision exampleConsts
           (exampleBall\<lparr>m_xPosition := 1 / 2, m_yPosition := 19 / 2, m_xVelocity := - 1,
              m_yVelocity := 2\<rparr>) (playSurface exampleConsts)) = 1
 \<and> getY (resolveCircleBoundaryCollision exampleConsts
           (exampleBall\<lparr>m_xPosition := 1 / 2, m_yPosition := 19 / 2, m_xVelocity := - 1,
              m_yVelocity := 2\<rparr>) (playSurface exampleConsts)) = 9
 \<and> getVX (resolveCircleBoundaryCollision exampleConsts
           (exampleBall\<lparr>m_xPosition := 1 / 2, m_yPosition := 19 / 2, m_xVelocity := - 1,
              m_yVelocity := 2\<rparr>) (playSurface exampleConsts)) = 1
 \<and> getVY (resolveCircleBoundaryCollision exampleConsts
           (exampleBall\<lparr>m_xPosition := 1 / 2, m_yPosition := 19 / 2, m_xVelocity := - 1,
              m_yVelocity := 2\<rparr>) (playSurface exampleConsts)) = - 2
 \<and> 0 < getVX (resolveCircleBoundaryCollision exampleConsts
           (exampleBall\<lparr>m_xPosition := 1 / 2, m_yPosition := 5, m_xVelocity := - 1,
              m_yVelocity := 0, m_radius := 1\<rparr>)
           \<lparr>xPos1 = 0, yPos1 = 0, xPos2 = 10, yPos2 = 10\<rparr>)"
proof -
  let ?b = "exampleBall\<lparr>m_xPosition := 1 / 2, m_yPosition := 19 / 2, m_xVelocity := - 1,
              m_yVelocity := 2\<rparr>"
  let ?r = "playSurface exampleConsts"
  let ?b' = "resolveCircleBoundaryCollision exampleConsts ?b ?r"
  have cf: "0 < collisionFriction exampleConsts" by (simp add: exampleConsts_def)
  have fitx: "2 * getRadius ?b \<le> xPos2 ?r - xPos1 ?r"
    and fity: "2 * getRadius ?b \<le> yPos2 ?r - yPos1 ?r"
    by (simp_all add: exampleConsts_def exampleBall_def)
  have lo: "getX ?b - getRadius ?b < xPos1 ?r" and hi: "yPos2 ?r < getY ?b + getRadius ?b"
    by (simp_all add: exampleConsts_def exampleBall_def)
  have rad: "getRadius ?b' = 1"
    by (simp add: boundary_x(1) exampleBall_def)
  from boundary_resolution_flush [OF fitx fity] lo hi cf
  have "getX ?b' - getRadius ?b' = xPos1 ?r" "getVX ?b' = - getVX ?b * collisionFriction exampleConsts"
       "getY ?b' + getRadius ?b' = yPos2 ?r" "getVY ?b' = - getVY ?b * collisionFriction exampleConsts"
       "0 < getVX (resolveCircleBoundaryCollision exampleConsts
           (exampleBall\<lparr>m_xPosition := 1 / 2, m_yPosition := 5, m_xVelocity := - 1,
              m_yVelocity := 0, m_radius := 1\<rparr>)
           \<lparr>xPos1 = 0, yPos1 = 0, xPos2 = 10, yPos2 = 10\<rparr>)"
    by blast+
  then show ?thesis
    unfolding rad by (simp add: exampleConsts_def exampleBall_def)
qed

section \<open>The sub-step loop\<close>

lemma subSteps_collided: "subSteps cfg i sx sy n (st, True) = Inr (st, True)"
  by (simp add: subSteps.simps)

lemma subSteps_step:
  "0 < n \<Longrightarrow> subStep cfg i sx sy (st, False) = Inr acc \<Longrightarrow>
     subSteps cfg i sx sy n (st, False) = subSteps cfg i sx sy (n - 1) acc"
  by (subst subSteps.simps) simp

lemma subSteps_after_quiet:
  "quietSteps cfg i sx sy k st = Some stk \<Longrightarrow> real k < n \<Longrightarrow>
     subSteps cfg i sx sy n (st, False) = subSteps cfg i sx sy (n - real k) (stk, False)"
proof (induction k arbitrary: st n)
  case 0
  then show ?case by simp
next
  case (Suc k)
  from Suc.prems(1) obtain s1 where
    s1: "subStep cfg i sx sy (st, False) = Inr (s1, False)"
    and q: "quietSteps cfg i sx sy k s1 = Some stk"
    by (auto split: sum.splits if_splits simp: prod_eq_iff)
  from Suc.prems(2) have n: "0 < n" "real k < n - 1" by simp_all
  have "subSteps cfg i sx sy n (st, False) = subSteps cfg i sx sy (n - 1) (s1, False)"
    using subSteps_step [OF n(1) s1] .
  also have "\<dots> = subSteps cfg i sx sy (n - 1 - real k) (stk, False)"
    by (rule Suc.IH [OF q n(2)])
  finally show ?case by (simp add: algebra_simps)
qed

text \<open>
  Claim C7. A ball sub-steps at most until its first collision: when \<open>k\<close> iterations
  pass without a collision and the next one registers a collision, the loop started
  with any number \<open>n > k\<close> of sub-steps returns the state right after that
  iteration, and the \<open>n - k - 1\<close> sub-steps that remain change nothing: no further step
  vector is added to the ball's position.
\<close>

theorem substeps_stop_at_first_collision:
  assumes quiet: "quietSteps cfg i sx sy k st = Some stk"
    and hit: "subStep cfg i sx sy (stk, False) = Inr (st', True)"
    and more: "real k < n"
  shows "subSteps cfg i sx sy n (st, False) = Inr (st', True)
       \<and> subSteps cfg i sx sy (n - real k - 1) (st', True) = Inr (st', True)"
proof -
  have "subSteps cfg i sx sy n (st, False) = subSteps cfg i sx sy (n - real k) (stk, False)"
    by (rule subSteps_after_quiet [OF quiet more])
  also have "\<dots> = subSteps cfg i sx sy (n - real k - 1) (st', True)"
    using more by (intro subSteps_step [OF _ hit]) simp
  also have "\<dots> = Inr (st', True)"
    by (rule subSteps_collided)
  finally show ?thesis by (simp add: subSteps_collided)
qed

lemma upt_0_2: "[0..<2] = [0, Suc 0]"
  by (simp add: upt_rec)

lemmas example_defs = exampleGame_def cueBall_def exampleBall_def exampleConsts_def
  exampleTurn_def examplePlayers_def

lemmas step_defs = subStep_def checkTarget_def isOverlappingBall_def
  resolveCircleCollisionPosition_def resolveCircleCollisionVelocity_def
  addPosition_def subPosition_def addVelocity_def subVelocity_def dotProduct_def
  calculateHypotenuse_axis upt_0_2 Let_def

lemma ex_quiet:
  "subStep exampleConsts 0 1 0 (exampleGame, False)
     = Inr (exampleGame\<lparr>gameBalls := [cueBall\<lparr>m_xPosition := 1\<rparr>,
                                        exampleBall\<lparr>m_xPosition := 7 / 2\<rparr>]\<rparr>, False)"
  by (simp add: step_defs example_defs)

lemma ex_hit:
  "subStep exampleConsts 0 1 0
       (exampleGame\<lparr>gameBalls := [cueBall\<lparr>m_xPosition := 1\<rparr>,
                                   exampleBall\<lparr>m_xPosition := 7 / 2\<rparr>]\<rparr>, False)
     = Inr (exampleGame\<lparr>gameBalls := [cueBall\<lparr>m_xPosition := 7 / 4, m_xVelocity := 0\<rparr>,
                                        exampleBall\<lparr>m_xPosition := 15 / 4, m_xVelocity := 3\<rparr>],
                          turn := exampleTurn\<lparr>firstHitBallType := solid\<rparr>\<rparr>, True)"
  by (simp add: step_defs example_defs)

theorem substeps_stop_at_first_collision_witness:
  "subSteps exampleConsts 0 (ballStepSizeX cueBall) (ballStepSizeY cueBall)
      (ballStepsNeeded cueBall) (exampleGame, False)
     = Inr (exampleGame\<lparr>gameBalls := [cueBall\<lparr>m_xPosition := 7 / 4, m_xVelocity := 0\<rparr>,
                                        exampleBall\<lparr>m_xPosition := 15 / 4, m_xVelocity := 3\<rparr>],
                          turn := exampleTurn\<lparr>firstHitBallType := solid\<rparr>\<rparr>, True)"
proof -
  have n: "ballStepsNeeded cueBall = 3"
    by (simp add: ballStepsNeeded_def ballVelocitySum_def cueBall_def exampleBall_def)
  have sx: "ballStepSizeX cueBall = 1" and sy: "ballStepSizeY cueBall = 0"
    by (simp_all add: ballStepSizeX_def ballStepSizeY_def n) (simp_all add: cueBall_def exampleBall_def)
  have q: "quietSteps exampleConsts 0 1 0 1 exampleGame
             = Some (exampleGame\<lparr>gameBalls := [cueBall\<lparr>m_xPosition := 1\<rparr>,
                                        exampleBall\<lparr>m_xPosition := 7 / 2\<rparr>]\<rparr>)"
    by (simp add: ex_quiet)
  have k: "real 1 < 3" by simp
  from substeps_stop_at_first_collision [OF q ex_hit k] show ?thesis
    unfolding n sx sy by blast
qed

section \<open>Pocketing\<close>

lemma checkTarget_frame:
  "checkTarget cfg i j acc = Inr acc' \<Longrightarrow>
     length (gameBalls (fst acc')) = length (gameBalls (fst acc))
   \<and> gamePlayers (fst acc') = gamePlayers (fst acc)
   \<and> pocketedBalls (turn (fst acc')) = pocketedBalls (turn (fst acc))
   \<and> turnPlayerIndex (turn (fst acc')) = turnPlayerIndex (turn (fst acc))"
  by (auto simp: checkTarget_def Let_def split: if_splits sum.splits)

lemma checkTargets_frame:
  "checkTargets cfg i js acc = Inr acc' \<Longrightarrow>
     length (gameBalls (fst acc')) = length (gameBalls (fst acc))
   \<and> gamePlayers (fst acc') = gamePlayers (fst acc)
   \<and> pocketedBalls (turn (fst acc')) = pocketedBalls (turn (fst acc))
   \<and> turnPlayerIndex (turn (fst acc')) = turnPlayerIndex (turn (fst acc))"
proof (induction js arbitrary: acc)
  case Nil
  then show ?case by simp
next
  case (Cons j js)
  from Cons.prems obtain mid where
    m: "checkTarget cfg i j acc = Inr mid" and r: "checkTargets cfg i js mid = Inr acc'"
    by (auto split: sum.splits)
  from checkTarget_frame [OF m] Cons.IH [OF r] show ?case by simp
qed

lemma subStep_frame:
  "subStep cfg i sx sy acc = Inr acc' \<Longrightarrow>
     length (gameBalls (fst acc')) = length (gameBalls (fst acc))
   \<and> gamePlayers (fst acc') = gamePlayers (fst acc)
   \<and> pocketedBalls (turn (fst acc')) = pocketedBalls (turn (fst acc))
   \<and> turnPlayerIndex (turn (fst acc')) = turnPlayerIndex (turn (fst acc))"
  unfolding subStep_def Let_def
  by (drule checkTargets_frame) simp

lemma subSteps_frame:
  "subSteps cfg i sx sy n acc = Inr acc' \<Longrightarrow>
     length (gameBalls (fst acc')) = length (gameBalls (fst acc))
   \<and> gamePlayers (fst acc') = gamePlayers (fst acc)
   \<and> pocketedBalls (turn (fst acc')) = pocketedBalls (turn (fst acc))
   \<and> turnPlayerIndex (turn (fst acc')) = turnPlayerIndex (turn (fst acc))"
proof (induction cfg i sx sy n acc rule: subSteps.induct)
  case (1 cfg i sx sy n acc)
  show ?case
  proof (cases "0 < n \<and> \<not> snd acc")
    case False
    with "1.prems" show ?thesis by (simp add: subSteps.simps)
  next
    case True
    with "1.prems" obtain mid where
      m: "subStep cfg i sx sy acc = Inr mid"
      and r: "subSteps cfg i sx sy (n - 1) mid = Inr acc'"
      by (subst (asm) subSteps.simps) (auto split: sum.splits)
    from subStep_frame [OF m] "1.IH" [OF True m r] show ?thesis by simp
  qed
qed

lemma friction_boundary_visible:
  "isVisible (resolveCircleBoundaryCollision cfg (applyFriction b f v) r) = isVisible b"
  by (simp add: resolveCircleBoundaryCollision_def applyFriction_def setVelocity_def
        addPosition_def Let_def split: prod.splits)

lemma pocketBall_pocketed:
  assumes i: "i < length (gameBalls st)"
    and pocket: "isInPocket (gameBalls st ! i)"
    and lo: "0 \<le> turnPlayerIndex (turn st)"
    and hi: "turnPlayerIndex (turn st) < int (length (gamePlayers st))"
    and two: "2 \<le> length (gamePlayers st)"
  shows "\<exists>st2. pocketBall isInPocket i st = Inr st2
           \<and> length (gameBalls st2) = length (gameBalls st)
           \<and> \<not> isVisible (gameBalls st2 ! i)
           \<and> pocketedBalls (turn st2) = pocketedBalls (turn st) @ [i]
           \<and> (getTargetBallType (gamePlayers st ! nat (turnPlayerIndex (turn st))) = undetermined
                \<and> (getBallType (gameBalls st ! i) = solid \<or> getBallType (gameBalls st ! i) = striped)
              \<longrightarrow> getTargetBallType (gamePlayers st2 ! nat (turnPlayerIndex (turn st)))
                    = getBallType (gameBalls st ! i)
                \<and> getTargetBallType
                      (gamePlayers st2 ! ((nat (turnPlayerIndex (turn st)) + 1)
                                            mod length (gamePlayers st)))
                    = (if getBallType (gameBalls st ! i) = solid then striped else solid))"
proof -
  define p where "p = nat (turnPlayerIndex (turn st))"
  define q where "q = (p + 1) mod length (gamePlayers st)"
  have p: "p < length (gamePlayers st)" using lo hi by (simp add: p_def)
  have q: "q < length (gamePlayers st)"
  proof -
    from two have "0 < length (gamePlayers st)" by linarith
    then show ?thesis unfolding q_def by (rule mod_less_divisor)
  qed
  have pq: "p \<noteq> q"
  proof (cases "p + 1 = length (gamePlayers st)")
    case True
    then show ?thesis using two by (simp add: q_def)
  next
    case False
    with p have "p + 1 < length (gamePlayers st)" by simp
    then show ?thesis by (simp add: q_def)
  qed
  show ?thesis
    using i pocket lo hi p q pq
    unfolding p_def [symmetric] q_def [symmetric] pocketBall_def Let_def
    by (auto simp: setVisible_def setTargetBallType_def p_def [symmetric] q_def [symmetric])
qed

text \<open>
  Claim C4 as stated fails for a ball at rest: \<open>stepPhysics\<close> skips a visible ball whose
  \<open>stepsNeeded\<close> is not positive, pocket test included. Here a visible ball with zero
  velocity lies in the pocket, and the tick returns the game unchanged: the ball is still
  visible and \<open>pocketedBalls\<close> is still empty.
\<close>

theorem pocketing_of_resting_ball_counterexample:
  "isVisible (gameBalls restingGame ! 0)
 \<and> getVX (gameBalls restingGame ! 0) = 0 \<and> getVY (gameBalls restingGame ! 0) = 0
 \<and> examplePocket (gameBalls restingGame ! 0)
 \<and> pocketedBalls (turn restingGame) = []
 \<and> stepPhysics exampleConsts examplePocket restingGame = Inr restingGame"
  by (simp add: stepPhysics_def stepBall_def ballStepsNeeded_def ballVelocitySum_def
        restingGame_def exampleBall_def examplePocket_def exampleTurn_def)

text \<open>
  Claim C4, amended. For a visible ball of the vector with positive radius and positive
  \<open>stepsNeeded\<close> whose step loop returns the state \<open>st1\<close>: if the ball is in a pocket in
  \<open>st1\<close> (and the acting player's index is within the vector of players, of whom there are
  at least two), the processing of the ball returns, the ball is invisible afterwards,
  its index is appended to \<open>pocketedBalls\<close>, and if the acting player's target type was
  undetermined and the ball is solid or striped, the acting player has the ball's type
  and the opponent the complementary one.
\<close>

theorem pocketing_of_moving_ball:
  assumes i: "i < length (gameBalls st)"
    and vis: "isVisible (gameBalls st ! i)"
    and rad: "0 < getRadius (gameBalls st ! i)"
    and mov: "0 < ballStepsNeeded (gameBalls st ! i)"
    and loop: "subSteps cfg i (ballStepSizeX (gameBalls st ! i)) (ballStepSizeY (gameBalls st ! i))
                 (ballStepsNeeded (gameBalls st ! i)) (st, False) = Inr (st1, c)"
    and pocket: "isInPocket (gameBalls st1 ! i)"
    and lo: "0 \<le> turnPlayerIndex (turn st1)"
    and hi: "turnPlayerIndex (turn st1) < int (length (gamePlayers st1))"
    and two: "2 \<le> length (gamePlayers st1)"
  shows "\<exists>st2. stepBall cfg isInPocket i st = Inr st2
           \<and> \<not> isVisible (gameBalls st2 ! i)
           \<and> pocketedBalls (turn st2) = pocketedBalls (turn st1) @ [i]
           \<and> (getTargetBallType (gamePlayers st1 ! nat (turnPlayerIndex (turn st1))) = undetermined
                \<and> (getBallType (gameBalls st1 ! i) = solid
                     \<or> getBallType (gameBalls st1 ! i) = striped)
              \<longrightarrow> getTargetBallType (gamePlayers st2 ! nat (turnPlayerIndex (turn st1)))
                    = getBallType (gameBalls st1 ! i)
                \<and> getTargetBallType
                      (gamePlayers st2 ! ((nat (turnPlayerIndex (turn st1)) + 1)
                                            mod length (gamePlayers st1)))
                    = (if getBallType (gameBalls st1 ! i) = solid then striped else solid))"
proof -
  have len: "length (gameBalls st1) = length (gameBalls st)"
    using subSteps_frame [OF loop] by simp
  with i have i1: "i < length (gameBalls st1)" by simp
  from pocketBall_pocketed [where isInPocket = isInPocket, OF i1 pocket lo hi two] obtain mid where
    p: "pocketBall isInPocket i st1 = Inr mid"
    and plen: "length (gameBalls mid) = length (gameBalls st1)"
    and pvis: "\<not> isVisible (gameBalls mid ! i)"
    and plist: "pocketedBalls (turn mid) = pocketedBalls (turn st1) @ [i]"
    and ptype: "getTargetBallType (gamePlayers st1 ! nat (turnPlayerIndex (turn st1))) = undetermined
                \<and> (getBallType (gameBalls st1 ! i) = solid
                     \<or> getBallType (gameBalls st1 ! i) = striped)
              \<longrightarrow> getTargetBallType (gamePlayers mid ! nat (turnPlayerIndex (turn st1)))
                    = getBallType (gameBalls st1 ! i)
                \<and> getTargetBallType
                      (gamePlayers mid ! ((nat (turnPlayerIndex (turn st1)) + 1)
                                            mod length (gamePlayers st1)))
                    = (if getBallType (gameBalls st1 ! i) = solid then striped else solid)"
    by blast
  define st2 where
    "st2 = mid\<lparr>gameBalls := (gameBalls mid)
                   [i := resolveCircleBoundaryCollision cfg
                           (applyFriction (gameBalls mid ! i) (rollingFriction cfg)
                              (stoppingVelocity cfg))
                           (playSurface cfg)]\<rparr>"
  have r: "stepBall cfg isInPocket i st = Inr st2"
    using vis rad mov by (simp add: stepBall_def Let_def loop p st2_def)
  have v: "\<not> isVisible (gameBalls st2 ! i)"
    using i1 plen pvis by (simp add: st2_def friction_boundary_visible)
  have l: "pocketedBalls (turn st2) = pocketedBalls (turn st1) @ [i]"
    using plist by (simp add: st2_def)
  have g: "gamePlayers st2 = gamePlayers mid" by (simp add: st2_def)
  from r v l ptype show ?thesis unfolding g [symmetric] by blast
qed

lemma rolling_loop:
  "subSteps exampleConsts 0 (- 1) 0 2 (rollingGame, False)
     = Inr (rollingGame\<lparr>gameBalls := [exampleBall\<lparr>m_xPosition := 1, m_yPosition := 1,
                                                     m_xVelocity := - 2\<rparr>]\<rparr>, False)"
proof -
  have s1: "subStep exampleConsts 0 (- 1) 0 (rollingGame, False)
     = Inr (rollingGame\<lparr>gameBalls := [exampleBall\<lparr>m_xPosition := 2, m_yPosition := 1,
                                                     m_xVelocity := - 2\<rparr>]\<rparr>, False)"
    by (simp add: subStep_def checkTarget_def isOverlappingBall_def addPosition_def
          rollingGame_def exampleBall_def)
  have s2: "subStep exampleConsts 0 (- 1) 0
              (rollingGame\<lparr>gameBalls := [exampleBall\<lparr>m_xPosition := 2, m_yPosition := 1,
                                                     m_xVelocity := - 2\<rparr>]\<rparr>, False)
     = Inr (rollingGame\<lparr>gameBalls := [exampleBall\<lparr>m_xPosition := 1, m_yPosition := 1,
                                                     m_xVelocity := - 2\<rparr>]\<rparr>, False)"
    by (simp add: subStep_def checkTarget_def isOverlappingBall_def addPosition_def
          rollingGame_def exampleBall_def)
  show ?thesis
    by (simp add: subSteps_step [OF _ s1] subSteps_step [OF _ s2] subSteps.simps [of _ _ _ _ 0])
qed

theorem pocketing_of_moving_ball_witness:
  "\<exists>st2. stepBall exampleConsts examplePocket 0 rollingGame = Inr st2
     \<and> \<not> isVisible (gameBalls st2 ! 0)
     \<and> pocketedBalls (turn st2) = [0]
     \<and> getTargetBallType (gamePlayers st2 ! 0) = solid
     \<and> getTargetBallType (gamePlayers st2 ! 1) = striped"
proof -
  let ?b = "gameBalls rollingGame ! 0"
  let ?st1 = "rollingGame\<lparr>gameBalls := [exampleBall\<lparr>m_xPosition := 1, m_yPosition := 1,
                                                     m_xVelocity := - 2\<rparr>]\<rparr>"
  have n: "ballStepsNeeded ?b = 2"
    by (simp add: ballStepsNeeded_def ballVelocitySum_def rollingGame_def exampleBall_def)
  have sx: "ballStepSizeX ?b = - 1" and sy: "ballStepSizeY ?b = 0"
    by (simp_all add: ballStepSizeX_def ballStepSizeY_def n)
       (simp_all add: rollingGame_def exampleBall_def)
  have i: "0 < length (gameBalls rollingGame)" by (simp add: rollingGame_def)
  have vis: "isVisible ?b" and rad: "0 < getRadius ?b"
    by (simp_all add: rollingGame_def exampleBall_def)
  have mov: "0 < ballStepsNeeded ?b" by (simp add: n)
  have loop: "subSteps exampleConsts 0 (ballStepSizeX ?b) (ballStepSizeY ?b) (ballStepsNeeded ?b)
                (rollingGame, False) = Inr (?st1, False)"
    unfolding n sx sy by (rule rolling_loop)
  have pocket: "examplePocket (gameBalls ?st1 ! 0)"
    by (simp add: examplePocket_def exampleBall_def)
  have lo: "0 \<le> turnPlayerIndex (turn ?st1)"
    and hi: "turnPlayerIndex (turn ?st1) < int (length (gamePlayers ?st1))"
    and two: "2 \<le> length (gamePlayers ?st1)"
    by (simp_all add: rollingGame_def exampleTurn_def examplePlayers_def)
  from pocketing_of_moving_ball [where isInPocket = examplePocket, OF i vis rad mov loop pocket lo hi two]
  obtain st2 where
    "stepBall exampleConsts examplePocket 0 rollingGame = Inr st2"
    "\<not> isVisible (gameBalls st2 ! 0)"
    "pocketedBalls (turn st2) = [0]"
    "getTargetBallType (gamePlayers st2 ! 0) = solid"
    "getTargetBallType (gamePlayers st2 ! 1) = striped"
    by (auto simp: rollingGame_def exampleTurn_def examplePlayers_def exampleBall_def)
  then show ?thesis by blast
qed

end
